theory Spec2Isabelle
  imports Main
begin

section \<open>Data model\<close>

text \<open>
  The Python sources are \<^verbatim>\<open>src/rift/node.py\<close> and \<^verbatim>\<open>src/rift/interface.py\<close>.
  Python integers are unbounded, so every numeric field is an \<^typ>\<open>int\<close>. A Python
  exception is a value of \<open>error\<close>; a function that can raise returns \<open>error + 'a\<close>.
  Logging calls have no effect on the state and are left out.
\<close>

datatype error = AssertionError | TypeError | AttributeError

text \<open>
  \<^verbatim>\<open>constants.DIR_SOUTH\<close>, \<^verbatim>\<open>DIR_NORTH\<close> and \<^verbatim>\<open>DIR_EAST_WEST\<close>. A TIE-ID carries a
  direction as well; there only South and North are legal, and the code asserts so.
\<close>

datatype direction = DIR_SOUTH | DIR_NORTH | DIR_EAST_WEST

text \<open>
  Modelled from the spec: the type declaration \<^verbatim>\<open>common.ttypes.TIETypeType\<close> is not among
  the sources. The spec lists the six TIE types; \<open>OtherTIEType\<close> stands for any other
  value of the wire enumeration, which the code reaches in its final \<^verbatim>\<open>else\<close> branches.
\<close>

datatype tietype =
    NodeTIEType
  | PrefixTIEType
  | PositiveDisaggregationPrefixTIEType
  | NegativeDisaggregationPrefixTIEType
  | PGPrefixTIEType
  | KeyValueTIEType
  | OtherTIEType

record tie_id =
  direction :: direction
  originator :: int
  tietype :: tietype
  tie_nr :: int

record tie_header =
  tieid :: tie_id
  seq_nr :: int
  remaining_lifetime :: int
  origination_time :: "int option"

text \<open>
  Modelled from the spec: \<^verbatim>\<open>common.constants.lifetime_diff2ignore\<close> is not among the
  sources; the spec gives 300 seconds.
\<close>

definition lifetime_diff2ignore :: int where
  "lifetime_diff2ignore = 300"

section \<open>TIE header age comparison\<close>

text \<open>
  \<^verbatim>\<open>compare_tie_header_age\<close> (node.py, lines 44-71). The leading \<^verbatim>\<open>assert\<close> on equal
  TIE-IDs is the \<open>AssertionError\<close> branch.
\<close>

definition compare_tie_header_age :: "tie_header \<Rightarrow> tie_header \<Rightarrow> error + int" where
  "compare_tie_header_age header1 header2 =
     (if tieid header1 \<noteq> tieid header2 then Inl AssertionError
      else if seq_nr header1 < seq_nr header2 then Inr (- 1)
      else if seq_nr header1 > seq_nr header2 then Inr 1
      else if remaining_lifetime header1 = 0 \<and> remaining_lifetime header2 \<noteq> 0 then Inr (- 1)
      else if remaining_lifetime header1 \<noteq> 0 \<and> remaining_lifetime header2 = 0 then Inr 1
      else
        (let age_diff = \<bar>remaining_lifetime header1 - remaining_lifetime header2\<bar> in
         if age_diff > lifetime_diff2ignore then
           (if remaining_lifetime header1 < remaining_lifetime header2 then Inr (- 1)
            else if remaining_lifetime header1 > remaining_lifetime header2 then Inr 1
            else Inr 0)
         else Inr 0))"

section \<open>TIE packets and the node state\<close>

text \<open>
  Modelled from the spec: the declarations of \<^verbatim>\<open>encoding.ttypes\<close> (generated from the wire
  schema) are not among the sources. A Node TIE element carries the originator's level and
  a dictionary from neighbor system-id to level, cost, link-id pairs and bandwidth; a
  prefix element carries a dictionary from prefix to metric and tags; the element of a TIE
  is a tagged variant. A Python dictionary is the list of its items, keys distinct.
\<close>

record node_neighbor =
  nbr_level :: int
  nbr_cost :: int
  nbr_link_ids :: "(int \<times> int) set"
  nbr_bandwidth :: int

record node_tie_element =
  ne_name :: string
  ne_level :: "int option"
  ne_neighbors :: "(int \<times> node_neighbor) list"

record prefix_tie_element =
  prefixes :: "(string \<times> int \<times> int set) list"

record keyvalue_tie_element =
  keyvalues :: "(string \<times> string) list"

datatype tie_element =
    ElemNode node_tie_element
  | ElemPrefixes prefix_tie_element
  | ElemPositiveDisaggregationPrefixes prefix_tie_element
  | ElemKeyValues keyvalue_tie_element

record tie_packet =
  header :: tie_header
  element :: tie_element

record tire_packet =
  headers :: "tie_header list"

text \<open>
  Two dictionaries are equal in Python when they hold the same items, in any order; the
  generated \<^verbatim>\<open>__eq__\<close> of the wire classes compares field by field.
\<close>

definition dict_eq :: "('k \<times> 'v) list \<Rightarrow> ('k \<times> 'v) list \<Rightarrow> bool" where
  "dict_eq xs ys = (set xs = set ys)"

fun element_eq :: "tie_element \<Rightarrow> tie_element \<Rightarrow> bool" where
  "element_eq (ElemNode a) (ElemNode b) =
     (ne_name a = ne_name b \<and> ne_level a = ne_level b \<and> dict_eq (ne_neighbors a) (ne_neighbors b))"
| "element_eq (ElemPrefixes a) (ElemPrefixes b) = dict_eq (prefixes a) (prefixes b)"
| "element_eq (ElemPositiveDisaggregationPrefixes a) (ElemPositiveDisaggregationPrefixes b) =
     dict_eq (prefixes a) (prefixes b)"
| "element_eq (ElemKeyValues a) (ElemKeyValues b) = dict_eq (keyvalues a) (keyvalues b)"
| "element_eq _ _ = False"

text \<open>\<^verbatim>\<open>Interface.State\<close> (interface.py, lines 59-62).\<close>

datatype State = ONE_WAY | TWO_WAY | THREE_WAY

text \<open>
  Modelled from the spec: the class \<^verbatim>\<open>offer.RxOffer\<close> is not among the sources. The spec
  gives its fields; the constructor sets \<open>removed\<close>, \<open>best\<close> and \<open>best_three_way\<close> to false.
\<close>

record offer =
  interface_name :: string
  offer_system_id :: int
  offer_level :: "int option"
  offer_not_a_ztp_offer :: bool
  offer_state :: State
  removed :: bool
  removed_reason :: string
  best :: bool
  best_three_way :: bool

text \<open>
  Modelled from the spec: the class \<^verbatim>\<open>offer.TxOffer\<close> is not among the sources; it holds
  what \<^verbatim>\<open>action_send_lie\<close> passes to its constructor.
\<close>

record tx_offer =
  tx_interface_name :: string
  tx_system_id :: int
  tx_level :: "int option"
  tx_not_a_ztp_offer :: bool
  tx_state :: State

text \<open>\<^verbatim>\<open>Node.Event\<close> (node.py, lines 110-118); \<open>NEIGHBOR_OFFER\<close> carries the offer.\<close>

datatype node_event =
    CHANGE_LOCAL_CONFIGURED_LEVEL
  | NEIGHBOR_OFFER offer
  | BETTER_HAL
  | BETTER_HAT
  | LOST_HAL
  | LOST_HAT
  | COMPUTATION_DONE
  | HOLD_DOWN_EXPIRED

text \<open>
  The reason string handed to \<^verbatim>\<open>trigger_spf\<close>: "TIE ... changed", "TIE ... added" or
  "TIE ... removed".
\<close>

datatype spf_reason = TIE_changed tie_id | TIE_added tie_id | TIE_removed tie_id

text \<open>
  The fields of \<^verbatim>\<open>Node\<close> that the modelled functions read or write. \<open>ties\<close> is the TIE
  database, keyed by TIE-ID. \<open>node_events\<close> is the queue of the node's ZTP state machine
  (what \<^verbatim>\<open>self.fsm.push_event\<close> appends to). \<open>defer_spf_timer\<close> is true while the
  timer object exists. The destination tables and the routes that an SPF run recomputes
  are not part of this state: a run shows as \<open>spf_runs_count\<close>. The dictionaries
  \<^verbatim>\<open>_rx_offers\<close> and \<^verbatim>\<open>_tx_offers\<close> are lists of items in insertion order.
\<close>

record node =
  system_id :: int
  configured_level :: "int option"
  top_of_fabric_flag :: bool
  leaf_only :: bool
  leaf_2_leaf :: bool
  derived_level :: "int option"
  highest_available_level :: "int option"
  highest_adjacency_three_way :: "int option"
  rx_offers :: "(string \<times> offer) list"
  tx_offers :: "(string \<times> tx_offer) list"
  node_events :: "node_event list"
  ties :: "tie_id \<rightharpoonup> tie_packet"
  defer_spf_timer :: bool
  spf_triggers_count :: int
  spf_triggers_deferred_count :: int
  spf_deferred_trigger_pending :: bool
  spf_runs_count :: int
  spf_trigger_history :: "spf_reason list"

definition MY_TIE_NR :: int where
  "MY_TIE_NR = 1"

definition FLUSH_LIFETIME :: int where
  "FLUSH_LIFETIME = 60"

definition SPF_TRIGGER_HISTORY_LENGTH :: nat where
  "SPF_TRIGGER_HISTORY_LENGTH = 10"

section \<open>The TIE database\<close>

text \<open>
  \<^verbatim>\<open>spf_run_direction\<close> (node.py, lines 1861-1914) and the functions it calls work on
  objects of the modules \<^verbatim>\<open>spf_dest\<close>, \<^verbatim>\<open>heapdict\<close>, \<^verbatim>\<open>rib\<close>, \<^verbatim>\<open>route\<close> and
  \<^verbatim>\<open>next_hop\<close>, none of which is among the sources, and on the elements of the stored
  TIEs. The run of one direction is therefore a parameter of every function that can
  trigger it: for a direction and the node state at the time, the exception that the run
  raises, if any. What a run computes (destination tables, routes) is not part of the
  node state here. Every property below holds for any such function.
\<close>

type_synonym spf_run_direction_fun = "direction \<Rightarrow> node \<Rightarrow> error option"

text \<open>
  \<^verbatim>\<open>spf_run\<close> (node.py, lines 1854-1859): the counter, then the South run, then the
  North run; an exception of either ends it.
\<close>

definition spf_run :: "spf_run_direction_fun \<Rightarrow> node \<Rightarrow> error + node" where
  "spf_run spf_run_direction n =
     (let n1 = n\<lparr>spf_runs_count := spf_runs_count n + 1\<rparr> in
      case spf_run_direction DIR_SOUTH n1 of
        Some e \<Rightarrow> Inl e
      | None \<Rightarrow>
          (case spf_run_direction DIR_NORTH n1 of
             Some e \<Rightarrow> Inl e
           | None \<Rightarrow> Inr n1))"

text \<open>
  \<^verbatim>\<open>trigger_spf\<close> (node.py, lines 1787-1798). The history is a deque of bounded length,
  filled from the left.
\<close>

definition trigger_spf :: "spf_run_direction_fun \<Rightarrow> node \<Rightarrow> spf_reason \<Rightarrow> error + node" where
  "trigger_spf spf_run_direction n reason =
     (let n1 = n\<lparr>spf_triggers_count := spf_triggers_count n + 1,
                 spf_trigger_history :=
                   take SPF_TRIGGER_HISTORY_LENGTH (reason # spf_trigger_history n)\<rparr>
      in if \<not> defer_spf_timer n1
         then spf_run spf_run_direction
                (n1\<lparr>defer_spf_timer := True, spf_deferred_trigger_pending := False\<rparr>)
         else Inr (n1\<lparr>spf_deferred_trigger_pending := True,
                      spf_triggers_deferred_count := spf_triggers_deferred_count n1 + 1\<rparr>))"

text \<open>\<^verbatim>\<open>ties_differ_enough_for_spf\<close> (node.py, lines 1279-1295).\<close>

definition ties_differ_enough_for_spf :: "tie_packet \<Rightarrow> tie_packet \<Rightarrow> error + bool" where
  "ties_differ_enough_for_spf old_tie new_tie =
     (if tieid (header old_tie) \<noteq> tieid (header new_tie) then Inl AssertionError
      else if seq_nr (header old_tie) \<noteq> seq_nr (header new_tie) then Inr True
      else if remaining_lifetime (header old_tie) = 0 \<and> remaining_lifetime (header new_tie) \<noteq> 0
        then Inr True
      else if remaining_lifetime (header old_tie) \<noteq> 0 \<and> remaining_lifetime (header new_tie) = 0
        then Inr True
      else if \<not> element_eq (element old_tie) (element new_tie) then Inr True
      else Inr False)"

text \<open>\<^verbatim>\<open>store_tie\<close> (node.py, lines 1297-1309).\<close>

definition store_tie :: "spf_run_direction_fun \<Rightarrow> node \<Rightarrow> tie_packet \<Rightarrow> error + node" where
  "store_tie spf_run_direction n tie_packet =
     (let tie_id = tieid (header tie_packet) in
      case ties n tie_id of
        Some old_tie_packet \<Rightarrow>
          (case ties_differ_enough_for_spf old_tie_packet tie_packet of
             Inl e \<Rightarrow> Inl e
           | Inr trigger \<Rightarrow>
               (let n1 = n\<lparr>ties := (ties n)(tie_id \<mapsto> tie_packet)\<rparr>
                in if trigger then trigger_spf spf_run_direction n1 (TIE_changed tie_id)
                   else Inr n1))
      | None \<Rightarrow>
          trigger_spf spf_run_direction (n\<lparr>ties := (ties n)(tie_id \<mapsto> tie_packet)\<rparr>)
            (TIE_added tie_id))"

text \<open>\<^verbatim>\<open>remove_tie\<close> (node.py, lines 1311-1316).\<close>

definition remove_tie :: "spf_run_direction_fun \<Rightarrow> node \<Rightarrow> tie_id \<Rightarrow> error + node" where
  "remove_tie spf_run_direction n tie_id =
     (if ties n tie_id \<noteq> None
      then trigger_spf spf_run_direction (n\<lparr>ties := (ties n)(tie_id := None)\<rparr>)
             (TIE_removed tie_id)
      else Inr n)"

text \<open>\<^verbatim>\<open>find_tie\<close> (node.py, lines 1318-1320).\<close>

definition find_tie :: "node \<Rightarrow> tie_id \<Rightarrow> tie_packet option" where
  "find_tie n tie_id = ties n tie_id"

section \<open>Processing a received TIRE\<close>

text \<open>
  \<^verbatim>\<open>process_received_tire_packet\<close> (node.py, lines 1403-1420). The loop over the headers
  is \<open>process_tire_headers\<close>, with the three result lists as accumulator.
\<close>

fun process_tire_headers ::
  "node \<Rightarrow> tie_header list \<Rightarrow> tie_header list \<times> tie_header list \<times> tie_header list \<Rightarrow>
   error + (tie_header list \<times> tie_header list \<times> tie_header list)" where
  "process_tire_headers n [] acc = Inr acc"
| "process_tire_headers n (header_in_tire # rest)
       (request_tie_headers, start_sending_tie_headers, acked_tie_headers) =
     (case find_tie n (tieid header_in_tire) of
        None \<Rightarrow>
          process_tire_headers n rest
            (request_tie_headers, start_sending_tie_headers, acked_tie_headers)
      | Some db_tie \<Rightarrow>
          (case compare_tie_header_age (header db_tie) header_in_tire of
             Inl e \<Rightarrow> Inl e
           | Inr comparison \<Rightarrow>
               if comparison < 0 then
                 process_tire_headers n rest
                   (request_tie_headers @ [header_in_tire], start_sending_tie_headers,
                    acked_tie_headers)
               else if comparison > 0 then
                 process_tire_headers n rest
                   (request_tie_headers, start_sending_tie_headers @ [header db_tie],
                    acked_tie_headers)
               else
                 process_tire_headers n rest
                   (request_tie_headers, start_sending_tie_headers,
                    acked_tie_headers @ [header db_tie])))"

definition process_received_tire_packet ::
  "node \<Rightarrow> tire_packet \<Rightarrow> error + (tie_header list \<times> tie_header list \<times> tie_header list)" where
  "process_received_tire_packet n tire_packet =
     process_tire_headers n (headers tire_packet) ([], [], [])"

section \<open>Processing a received TIE\<close>

text \<open>
  Modelled from the spec: \<^verbatim>\<open>packet_common.make_tie_header\<close> is not among the sources. It
  builds the header from the four parts of the TIE-ID, the sequence number and the
  lifetime; the origination time is left unset.
\<close>

definition make_tie_header ::
  "direction \<Rightarrow> int \<Rightarrow> tietype \<Rightarrow> int \<Rightarrow> int \<Rightarrow> int \<Rightarrow> tie_header" where
  "make_tie_header dir orig ttype nr seq lifetime =
     \<lparr>tieid = \<lparr>direction = dir, originator = orig, tietype = ttype, tie_nr = nr\<rparr>,
      seq_nr = seq, remaining_lifetime = lifetime, origination_time = None\<rparr>"

text \<open>
  Modelled from the spec: the constructors \<^verbatim>\<open>encoding.ttypes.PrefixTIEElement()\<close> and
  \<^verbatim>\<open>encoding.ttypes.KeyValueTIEElement()\<close> called with no argument give an element with
  no prefixes and no key-values.
\<close>

definition empty_prefixes :: prefix_tie_element where
  "empty_prefixes = \<lparr>prefixes = []\<rparr>"

definition empty_keyvalues :: keyvalue_tie_element where
  "empty_keyvalues = \<lparr>keyvalues = []\<rparr>"

text \<open>
  \<^verbatim>\<open>find_according_real_node_tie\<close> (node.py, lines 1422-1430): the node's own Node TIE
  number \<open>MY_TIE_NR\<close> of the same direction; its absence fails the assertion.
\<close>

definition find_according_real_node_tie :: "node \<Rightarrow> tie_header \<Rightarrow> error + tie_packet" where
  "find_according_real_node_tie n rx_tie_header =
     (let real_node_tie_id = (tieid rx_tie_header)\<lparr>tie_nr := MY_TIE_NR\<rparr> in
      case find_tie n real_node_tie_id of
        None \<Rightarrow> Inl AssertionError
      | Some real_node_tie \<Rightarrow> Inr real_node_tie)"

text \<open>
  \<^verbatim>\<open>make_according_empty_tie\<close> (node.py, lines 1432-1466). Assigning \<^verbatim>\<open>.node.neighbors\<close>
  on an element that holds no node part raises \<open>AttributeError\<close>.
\<close>

definition make_according_empty_tie :: "node \<Rightarrow> tie_header \<Rightarrow> error + tie_packet" where
  "make_according_empty_tie n rx_tie_header =
     (let new_tie_header =
            make_tie_header
              (direction (tieid rx_tie_header))
              (originator (tieid rx_tie_header))
              (tietype (tieid rx_tie_header))
              (tie_nr (tieid rx_tie_header))
              (seq_nr rx_tie_header + 1)
              FLUSH_LIFETIME
      in case tietype (tieid rx_tie_header) of
           NodeTIEType \<Rightarrow>
             (case find_according_real_node_tie n rx_tie_header of
                Inl e \<Rightarrow> Inl e
              | Inr real_node_tie_packet \<Rightarrow>
                  (case element real_node_tie_packet of
                     ElemNode ne \<Rightarrow>
                       Inr \<lparr>header = new_tie_header,
                            element = ElemNode (ne\<lparr>ne_neighbors := []\<rparr>)\<rparr>
                   | _ \<Rightarrow> Inl AttributeError))
         | PrefixTIEType \<Rightarrow>
             Inr \<lparr>header = new_tie_header, element = ElemPrefixes empty_prefixes\<rparr>
         | PositiveDisaggregationPrefixTIEType \<Rightarrow>
             Inr \<lparr>header = new_tie_header,
                  element = ElemPositiveDisaggregationPrefixes empty_prefixes\<rparr>
         | NegativeDisaggregationPrefixTIEType \<Rightarrow> Inl AssertionError
         | PGPrefixTIEType \<Rightarrow> Inl AssertionError
         | KeyValueTIEType \<Rightarrow>
             Inr \<lparr>header = new_tie_header, element = ElemKeyValues empty_keyvalues\<rparr>
         | OtherTIEType \<Rightarrow> Inl AssertionError)"

text \<open>
  \<^verbatim>\<open>bump_own_tie\<close> (node.py, lines 1468-1480). \<open>db_tie\<close> is an object of the database:
  here the key that the caller found it under, together with the packet. In the second
  branch the code assigns the sequence number on that object, so the database entry under
  that key changes with it, without a call of \<^verbatim>\<open>store_tie\<close>.
\<close>

definition bump_own_tie ::
  "spf_run_direction_fun \<Rightarrow> node \<Rightarrow> (tie_id \<times> tie_packet) option \<Rightarrow> tie_header \<Rightarrow>
   error + (node \<times> tie_header)" where
  "bump_own_tie spf_run_direction n db_tie rx_tie_header =
     (case db_tie of
        None \<Rightarrow>
          (case make_according_empty_tie n rx_tie_header of
             Inl e \<Rightarrow> Inl e
           | Inr according_empty_tie_packet \<Rightarrow>
               (case store_tie spf_run_direction n according_empty_tie_packet of
                  Inl e \<Rightarrow> Inl e
                | Inr n1 \<Rightarrow> Inr (n1, header according_empty_tie_packet)))
      | Some (db_key, t) \<Rightarrow>
          (let bumped = (header t)\<lparr>seq_nr := seq_nr rx_tie_header + 1\<rparr>
           in Inr (n\<lparr>ties := (ties n)(db_key \<mapsto> t\<lparr>header := bumped\<rparr>)\<rparr>, bumped)))"

text \<open>
  \<^verbatim>\<open>process_received_tie_packet\<close> (node.py, lines 1482-1513). The result is the new node
  state and the pair (start-sending header, ack header).
\<close>

definition process_received_tie_packet ::
  "spf_run_direction_fun \<Rightarrow> node \<Rightarrow> tie_packet \<Rightarrow>
   error + (node \<times> tie_header option \<times> tie_header option)" where
  "process_received_tie_packet spf_run_direction n rx_tie =
     (let rx_tie_header = header rx_tie;
          rx_tie_id = tieid rx_tie_header;
          db_tie = find_tie n rx_tie_id
      in case db_tie of
           None \<Rightarrow>
             if originator rx_tie_id = system_id n then
               (case bump_own_tie spf_run_direction n None (header rx_tie) of
                  Inl e \<Rightarrow> Inl e
                | Inr (n1, h) \<Rightarrow> Inr (n1, Some h, None))
             else
               (case store_tie spf_run_direction n rx_tie of
                  Inl e \<Rightarrow> Inl e
                | Inr n1 \<Rightarrow> Inr (n1, None, Some rx_tie_header))
         | Some t \<Rightarrow>
             (case compare_tie_header_age (header t) rx_tie_header of
                Inl e \<Rightarrow> Inl e
              | Inr comparison \<Rightarrow>
                  if comparison < 0 then
                    (if originator rx_tie_id = system_id n then
                       (case bump_own_tie spf_run_direction n (Some (rx_tie_id, t))
                               (header rx_tie) of
                          Inl e \<Rightarrow> Inl e
                        | Inr (n1, h) \<Rightarrow> Inr (n1, Some h, None))
                     else
                       (case store_tie spf_run_direction n rx_tie of
                          Inl e \<Rightarrow> Inl e
                        | Inr n1 \<Rightarrow> Inr (n1, None, Some (header rx_tie))))
                  else if comparison > 0 then Inr (n, Some (header t), None)
                  else Inr (n, None, Some (header t))))"

section \<open>Levels, neighbors and interfaces\<close>

text \<open>
  Modelled from the spec: \<^verbatim>\<open>common.constants.leaf_level\<close>, \<^verbatim>\<open>top_of_fabric_level\<close> and
  \<^verbatim>\<open>default_lie_holdtime\<close> are not among the sources; the spec gives 0, 24 and 3 seconds.
\<close>

definition leaf_level :: int where
  "leaf_level = 0"

definition top_of_fabric_level :: int where
  "top_of_fabric_level = 24"

definition default_lie_holdtime :: int where
  "default_lie_holdtime = 3"

text \<open>\<^verbatim>\<open>level_value\<close> (node.py, lines 542-550).\<close>

definition level_value :: "node \<Rightarrow> int option" where
  "level_value n =
     (if configured_level n \<noteq> None then configured_level n
      else if top_of_fabric_flag n then Some top_of_fabric_level
      else if leaf_only n then Some leaf_level
      else derived_level n)"

text \<open>\<^verbatim>\<open>top_of_fabric\<close> (node.py, lines 559-561).\<close>

definition top_of_fabric :: "node \<Rightarrow> bool" where
  "top_of_fabric n = (level_value n = Some top_of_fabric_level)"

text \<open>
  Modelled from the spec: the class \<^verbatim>\<open>neighbor.Neighbor\<close> is not among the sources. The
  spec gives what is captured from a LIE: name, system id, advertised level, source
  address, flood port, the link id on the neighbor's side and the hold time; the code
  also reads the neighbor it reports (system id and link id) and its
  \<^verbatim>\<open>not_a_ztp_offer\<close> flag.
\<close>

record neighbor =
  nb_name :: string
  nb_system_id :: int
  nb_level :: "int option"
  nb_address :: string
  nb_flood_port :: int
  nb_local_id :: int
  nb_neighbor_system_id :: "int option"
  nb_neighbor_link_id :: "int option"
  nb_holdtime :: "int option"
  nb_not_a_ztp_offer :: bool

text \<open>
  Modelled from the spec: \<^verbatim>\<open>Neighbor.top_of_fabric\<close> is not among the sources; a node is
  top of fabric when its level is the top-of-fabric level, as in \<^verbatim>\<open>Node.top_of_fabric\<close>.
\<close>

definition nb_top_of_fabric :: "neighbor \<Rightarrow> bool" where
  "nb_top_of_fabric nb = (nb_level nb = Some top_of_fabric_level)"

text \<open>
  Modelled from the spec: the wire classes \<^verbatim>\<open>PacketHeader\<close>, \<^verbatim>\<open>NodeCapabilities\<close>,
  \<^verbatim>\<open>LIEPacket\<close> and \<^verbatim>\<open>ProtocolPacket\<close> of \<^verbatim>\<open>encoding.ttypes\<close> are not among the sources.
  The fields are the ones the spec lists for a LIE and the ones the code reads or sets. A
  LIE names its peer as a pair (system id, link id). Of the hierarchy indications the
  code tells \<^verbatim>\<open>leaf_only_and_leaf_2_leaf_procedures\<close> from any other value. A
  \<open>protocol_packet\<close> is a received packet whose content is a LIE.
\<close>

datatype hierarchy_indications = leaf_only_and_leaf_2_leaf_procedures | other_hierarchy_indications

record node_capabilities =
  flood_reduction :: bool
  hierarchy_indications :: "hierarchy_indications option"

record packet_header =
  major_version :: int
  sender :: int
  hdr_level :: "int option"

record lie_packet =
  lie_name :: string
  lie_local_id :: int
  lie_flood_port :: int
  link_mtu_size :: int
  lie_neighbor :: "(int \<times> int) option"
  lie_pod :: int
  lie_nonce :: int
  capabilities :: "node_capabilities option"
  lie_holdtime :: "int option"
  lie_not_a_ztp_offer :: bool
  you_are_flood_repeater :: bool
  lie_label :: "int option"

record protocol_packet =
  pkt_header :: "packet_header option"
  lie :: lie_packet

text \<open>
  A packet that this node hands to a send handler: the sender and level that the code
  puts into the header (the version fields keep the defaults of the wire schema) and the
  LIE or TIE that it carries.
\<close>

record sent_lie_packet =
  sl_sender :: int
  sl_level :: "int option"
  sl_lie :: lie_packet

record sent_tie_packet =
  st_sender :: int
  st_level :: "int option"
  st_tie :: tie_packet

text \<open>\<^verbatim>\<open>Interface.Event\<close> (interface.py, lines 64-81).\<close>

datatype Event =
    TIMER_TICK
  | LEVEL_CHANGED
  | HAL_CHANGED
  | HAT_CHANGED
  | HALS_CHANGED
  | LIE_RECEIVED
  | NEW_NEIGHBOR
  | VALID_REFLECTION
  | NEIGHBOR_DROPPED_REFLECTION
  | NEIGHBOR_CHANGED_LEVEL
  | NEIGHBOR_CHANGED_ADDRESS
  | NEIGHBOR_CHANGED_MINOR_FIELDS
  | UNACCEPTABLE_HEADER
  | HOLD_TIME_EXPIRED
  | MULTIPLE_NEIGHBORS
  | LIE_CORRUPT
  | SEND_LIE

text \<open>
  The fields of \<^verbatim>\<open>Interface\<close> that the modelled functions read or write. \<open>state\<close> is
  \<^verbatim>\<open>self.fsm.state\<close> and \<open>events\<close> the queue that \<^verbatim>\<open>self.fsm.push_event\<close> appends to.
  \<open>lie_send_handler\<close> and \<open>flood_send_handler\<close> say whether the handler object exists;
  \<open>sent_lies\<close> and \<open>sent_ties\<close> are the packets handed to them so far. The four flood
  queues are ordered dictionaries from TIE-ID to header: lists of items in insertion
  order, keys distinct.
\<close>

record interface =
  name :: string
  advertised_name :: string
  local_id :: int
  mtu :: int
  pod :: int
  rx_tie_port :: int
  neighbor :: "neighbor option"
  state :: State
  events :: "Event list"
  time_ticks_since_lie_received :: "int option"
  lie_accept_or_reject :: string
  lie_accept_or_reject_rule :: string
  tx_fail :: bool
  lie_send_handler :: bool
  flood_send_handler :: bool
  sent_lies :: "sent_lie_packet list"
  sent_ties :: "sent_tie_packet list"
  ties_tx :: "(tie_id \<times> tie_header) list"
  ties_rtx :: "(tie_id \<times> tie_header) list"
  ties_req :: "(tie_id \<times> tie_header) list"
  ties_ack :: "(tie_id \<times> tie_header) list"

text \<open>
  \<^verbatim>\<open>neighbor_direction\<close> (interface.py, lines 743-752). Comparing with an undefined level
  raises \<open>TypeError\<close> in Python.
\<close>

definition neighbor_direction :: "node \<Rightarrow> interface \<Rightarrow> error + direction option" where
  "neighbor_direction n intf =
     (case neighbor intf of
        None \<Rightarrow> Inr None
      | Some nb \<Rightarrow>
          (case (nb_level nb, level_value n) of
             (Some neighbor_level, Some my_level) \<Rightarrow>
               if neighbor_level > my_level then Inr (Some DIR_NORTH)
               else if neighbor_level < my_level then Inr (Some DIR_SOUTH)
               else Inr (Some DIR_EAST_WEST)
           | _ \<Rightarrow> Inl TypeError))"

section \<open>Flooding scope\<close>

text \<open>\<^verbatim>\<open>tie_is_originated_by_node\<close> (node.py, lines 1515-1516).\<close>

definition tie_is_originated_by_node :: "tie_header \<Rightarrow> int \<Rightarrow> bool" where
  "tie_is_originated_by_node tie_header node_system_id =
     (originator (tieid tie_header) = node_system_id)"

text \<open>
  \<^verbatim>\<open>tie_originator_level\<close> (node.py, lines 1518-1530). The level is read from the copy of
  the TIE in the database of the node that evaluates the rule.
\<close>

definition tie_originator_level :: "node \<Rightarrow> tie_header \<Rightarrow> error + int option" where
  "tie_originator_level n tie_header =
     (if tietype (tieid tie_header) \<noteq> NodeTIEType then Inl AssertionError
      else case find_tie n (tieid tie_header) of
             None \<Rightarrow> Inr None
           | Some db_tie \<Rightarrow>
               (case element db_tie of
                  ElemNode ne \<Rightarrow> Inr (ne_level ne)
                | _ \<Rightarrow> Inl AttributeError))"

text \<open>
  \<^verbatim>\<open>is_flood_allowed\<close> (node.py, lines 1532-1626). The result is the pair (allowed,
  reason). A TIE direction other than South and North fails the assertion of the last
  branch; ordering an originator level against an undefined level raises \<open>TypeError\<close>.
\<close>

definition is_flood_allowed ::
  "node \<Rightarrow> tie_header \<Rightarrow> direction option \<Rightarrow> int \<Rightarrow> int \<Rightarrow> int option \<Rightarrow> bool \<Rightarrow>
   error + (bool \<times> string)" where
  "is_flood_allowed n tie_header to_node_direction to_node_system_id from_node_system_id
      from_node_level from_node_is_top_of_fabric =
     (if direction (tieid tie_header) = DIR_SOUTH then
        (if tietype (tieid tie_header) = NodeTIEType then
           (if to_node_direction = Some DIR_SOUTH then
              (case tie_originator_level n tie_header of
                 Inl e \<Rightarrow> Inl e
               | Inr originator_level \<Rightarrow>
                   if originator_level = from_node_level
                   then Inr (True, ''Node S-TIE to S: originator level is same as from-node'')
                   else Inr (False, ''Node S-TIE to S: originator level is not same as from-node''))
            else if to_node_direction = Some DIR_NORTH then
              (case tie_originator_level n tie_header of
                 Inl e \<Rightarrow> Inl e
               | Inr None \<Rightarrow>
                   Inr (False, ''Node S-TIE to N: could not determine originator level'')
               | Inr (Some originator_level) \<Rightarrow>
                   (case from_node_level of
                      None \<Rightarrow> Inl TypeError
                    | Some from_level \<Rightarrow>
                        if originator_level > from_level
                        then Inr (True, ''Node S-TIE to N: originator level is higher than from-node'')
                        else Inr (False,
                               ''Node S-TIE to N: originator level is not higher than from-node'')))
            else if to_node_direction = Some DIR_EAST_WEST then
              (if from_node_is_top_of_fabric
               then Inr (False, ''Node S-TIE to EW: from-node is top of fabric'')
               else Inr (True, ''Node S-TIE to EW: from-node is not top of fabric''))
            else Inr (False, ''Node S-TIE to ?: never flood''))
         else
           (if to_node_direction = Some DIR_SOUTH then
              (if tie_is_originated_by_node tie_header from_node_system_id
               then Inr (True, ''Non-node S-TIE to S: self-originated'')
               else Inr (False, ''Non-node S-TIE to S: not self-originated''))
            else if to_node_direction = Some DIR_NORTH then
              (if to_node_system_id = originator (tieid tie_header)
               then Inr (True, ''Non-node S-TIE to N: to-node is originator of TIE'')
               else Inr (False, ''Non-node S-TIE to N: to-node is not originator of TIE''))
            else if to_node_direction = Some DIR_EAST_WEST then
              (if from_node_is_top_of_fabric
               then Inr (False, ''Non-node S-TIE to EW: this top of fabric'')
               else if tie_is_originated_by_node tie_header from_node_system_id
               then Inr (True, ''Non-node S-TIE to EW: self-originated and not top of fabric'')
               else Inr (False, ''Non-node S-TIE to EW: not self-originated''))
            else Inr (False, ''None-node S-TIE to ?: never flood'')))
      else if direction (tieid tie_header) \<noteq> DIR_NORTH then Inl AssertionError
      else
        (if to_node_direction = Some DIR_SOUTH then Inr (False, ''N-TIE to S: never flood'')
         else if to_node_direction = Some DIR_NORTH then Inr (True, ''N-TIE to N: always flood'')
         else if to_node_direction = Some DIR_EAST_WEST then
           (if from_node_is_top_of_fabric
            then Inr (True, ''N-TIE to EW: top of fabric'')
            else Inr (False, ''N-TIE to EW: not top of fabric''))
         else Inr (False, ''N-TIE to ?: never flood'')))"

text \<open>\<^verbatim>\<open>flood_allowed_from_node_to_nbr\<close> (node.py, lines 1628-1641).\<close>

definition flood_allowed_from_node_to_nbr ::
  "node \<Rightarrow> tie_header \<Rightarrow> direction option \<Rightarrow> int \<Rightarrow> int \<Rightarrow> int option \<Rightarrow> bool \<Rightarrow>
   error + (bool \<times> string)" where
  "flood_allowed_from_node_to_nbr n tie_header neighbor_dir neighbor_system_id node_system_id
      node_level node_is_top_of_fabric =
     is_flood_allowed n tie_header neighbor_dir neighbor_system_id node_system_id
       node_level node_is_top_of_fabric"

text \<open>\<^verbatim>\<open>flood_allowed_from_nbr_to_node\<close> (node.py, lines 1643-1662).\<close>

definition flood_allowed_from_nbr_to_node ::
  "node \<Rightarrow> tie_header \<Rightarrow> direction option \<Rightarrow> int \<Rightarrow> int option \<Rightarrow> bool \<Rightarrow> int \<Rightarrow>
   error + (bool \<times> string)" where
  "flood_allowed_from_nbr_to_node n tie_header neighbor_dir neighbor_system_id neighbor_level
      neighbor_is_top_of_fabric node_system_id =
     (let neighbor_reverse_direction =
            (if neighbor_dir = Some DIR_SOUTH then Some DIR_NORTH
             else if neighbor_dir = Some DIR_NORTH then Some DIR_SOUTH
             else neighbor_dir)
      in is_flood_allowed n tie_header neighbor_reverse_direction node_system_id
           neighbor_system_id neighbor_level neighbor_is_top_of_fabric)"

text \<open>
  \<^verbatim>\<open>is_request_allowed_simple\<close> (interface.py, lines 810-817). The arguments are
  evaluated in order: the neighbor direction first, then the attributes of the neighbor,
  which raise \<open>AttributeError\<close> when there is none.
\<close>

definition is_request_allowed_simple ::
  "node \<Rightarrow> interface \<Rightarrow> tie_header \<Rightarrow> bool \<Rightarrow> error + (bool \<times> string)" where
  "is_request_allowed_simple n intf tie_header i_am_top_of_fabric =
     (case neighbor_direction n intf of
        Inl e \<Rightarrow> Inl e
      | Inr dir \<Rightarrow>
          (case neighbor intf of
             None \<Rightarrow> Inl AttributeError
           | Some nb \<Rightarrow>
               flood_allowed_from_nbr_to_node n tie_header dir (nb_system_id nb) (nb_level nb)
                 (nb_top_of_fabric nb) (system_id n)))"

text \<open>
  \<^verbatim>\<open>is_request_allowed\<close> and \<^verbatim>\<open>is_request_filtered\<close> (interface.py, lines 819-830), with
  \<^verbatim>\<open>USE_SIMPLE_REQUEST_FILTERING = True\<close> (line 23).
\<close>

definition is_request_allowed ::
  "node \<Rightarrow> interface \<Rightarrow> tie_header \<Rightarrow> bool \<Rightarrow> error + (bool \<times> string)" where
  "is_request_allowed n intf tie_header i_am_top_of_fabric =
     is_request_allowed_simple n intf tie_header i_am_top_of_fabric"

definition is_request_filtered :: "node \<Rightarrow> interface \<Rightarrow> tie_header \<Rightarrow> error + (bool \<times> string)" where
  "is_request_filtered n intf tie_header =
     (case is_request_allowed n intf tie_header (top_of_fabric n) of
        Inl e \<Rightarrow> Inl e
      | Inr (allowed, reason) \<Rightarrow> Inr (\<not> allowed, reason))"

text \<open>\<^verbatim>\<open>is_flood_filtered\<close> (interface.py, lines 832-841).\<close>

definition is_flood_filtered :: "node \<Rightarrow> interface \<Rightarrow> tie_header \<Rightarrow> error + (bool \<times> string)" where
  "is_flood_filtered n intf tie_header =
     (case neighbor_direction n intf of
        Inl e \<Rightarrow> Inl e
      | Inr dir \<Rightarrow>
          (case neighbor intf of
             None \<Rightarrow> Inl AttributeError
           | Some nb \<Rightarrow>
               (case is_flood_allowed n tie_header dir (nb_system_id nb) (system_id n)
                       (level_value n) (top_of_fabric n) of
                  Inl e \<Rightarrow> Inl e
                | Inr (allowed, reason) \<Rightarrow> Inr (\<not> allowed, reason))))"

section \<open>Flood queues and the transmit path of an interface\<close>

text \<open>
  An ordered dictionary: assignment keeps the place of a key that is present and appends
  a new key; deletion drops the key.
\<close>

definition od_set :: "'k \<Rightarrow> 'v \<Rightarrow> ('k \<times> 'v) list \<Rightarrow> ('k \<times> 'v) list" where
  "od_set k v d =
     (if map_of d k = None then d @ [(k, v)]
      else map (\<lambda>(k', v'). if k' = k then (k', v) else (k', v')) d)"

definition od_del :: "'k \<Rightarrow> ('k \<times> 'v) list \<Rightarrow> ('k \<times> 'v) list" where
  "od_del k d = filter (\<lambda>(k', v'). k' \<noteq> k) d"

text \<open>
  \<^verbatim>\<open>remove_from_ties_tx\<close>, \<^verbatim>\<open>remove_from_ties_rtx\<close>, \<^verbatim>\<open>remove_from_ties_req\<close>,
  \<^verbatim>\<open>remove_from_ties_ack\<close> and \<^verbatim>\<open>remove_from_all_queues\<close> (interface.py, lines 893-927).
\<close>

definition remove_from_ties_tx :: "interface \<Rightarrow> tie_header \<Rightarrow> interface" where
  "remove_from_ties_tx intf tie_header =
     intf\<lparr>ties_tx := od_del (tieid tie_header) (ties_tx intf)\<rparr>"

definition remove_from_ties_rtx :: "interface \<Rightarrow> tie_header \<Rightarrow> interface" where
  "remove_from_ties_rtx intf tie_header =
     intf\<lparr>ties_rtx := od_del (tieid tie_header) (ties_rtx intf)\<rparr>"

definition remove_from_ties_req :: "interface \<Rightarrow> tie_header \<Rightarrow> interface" where
  "remove_from_ties_req intf tie_header =
     intf\<lparr>ties_req := od_del (tieid tie_header) (ties_req intf)\<rparr>"

definition remove_from_ties_ack :: "interface \<Rightarrow> tie_header \<Rightarrow> interface" where
  "remove_from_ties_ack intf tie_header =
     intf\<lparr>ties_ack := od_del (tieid tie_header) (ties_ack intf)\<rparr>"

definition remove_from_all_queues :: "interface \<Rightarrow> tie_header \<Rightarrow> interface" where
  "remove_from_all_queues intf tie_header =
     remove_from_ties_ack
       (remove_from_ties_req
          (remove_from_ties_rtx (remove_from_ties_tx intf tie_header) tie_header) tie_header)
       tie_header"

text \<open>
  \<^verbatim>\<open>send_protocol_packet\<close> (interface.py, lines 144-161) for a TIE on the flood handler.
  Reading the address of a handler that does not exist raises \<open>AttributeError\<close>. With a
  simulated send failure nothing is sent. A socket error of the handler is logged and
  swallowed by the code; the packet counts as handed over.
\<close>

definition send_tie_protocol_packet :: "interface \<Rightarrow> sent_tie_packet \<Rightarrow> error + interface" where
  "send_tie_protocol_packet intf protocol_packet =
     (if \<not> flood_send_handler intf then Inl AttributeError
      else if tx_fail intf then Inr intf
      else Inr (intf\<lparr>sent_ties := sent_ties intf @ [protocol_packet]\<rparr>))"

text \<open>\<^verbatim>\<open>add_to_ties_tx\<close> (interface.py, lines 843-865).\<close>

definition add_to_ties_tx :: "node \<Rightarrow> interface \<Rightarrow> tie_header \<Rightarrow> error + interface" where
  "add_to_ties_tx n intf tie_header =
     (let send_now =
            (case map_of (ties_tx intf) (tieid tie_header) of
               None \<Rightarrow> True
             | Some queued \<Rightarrow> if seq_nr tie_header > seq_nr queued then True else False);
          intf1 = intf\<lparr>ties_tx := od_set (tieid tie_header) tie_header (ties_tx intf)\<rparr>
      in if send_now then
           (case find_tie n (tieid tie_header) of
              None \<Rightarrow> Inr intf1
            | Some db_tie \<Rightarrow>
                send_tie_protocol_packet intf1
                  \<lparr>st_sender = system_id n, st_level = level_value n, st_tie = db_tie\<rparr>)
         else Inr intf1)"

text \<open>\<^verbatim>\<open>try_to_transmit_tie\<close> (interface.py, lines 867-884).\<close>

definition try_to_transmit_tie :: "node \<Rightarrow> interface \<Rightarrow> tie_header \<Rightarrow> error + interface" where
  "try_to_transmit_tie n intf tie_header =
     (case is_flood_filtered n intf tie_header of
        Inl e \<Rightarrow> Inl e
      | Inr (filtered, reason) \<Rightarrow>
          if \<not> filtered then
            (let intf1 = remove_from_ties_rtx intf tie_header in
             case map_of (ties_ack intf1) (tieid tie_header) of
               Some ack_header \<Rightarrow>
                 if seq_nr ack_header < seq_nr tie_header
                 then add_to_ties_tx n (remove_from_ties_ack intf1 ack_header) tie_header
                 else Inr intf1
             | None \<Rightarrow> add_to_ties_tx n intf1 tie_header)
          else Inr intf)"

text \<open>\<^verbatim>\<open>ack_tie\<close> (interface.py, lines 886-888).\<close>

definition ack_tie :: "interface \<Rightarrow> tie_header \<Rightarrow> interface" where
  "ack_tie intf tie_header =
     (let intf1 = remove_from_all_queues intf tie_header
      in intf1\<lparr>ties_ack := od_set (tieid tie_header) tie_header (ties_ack intf1)\<rparr>)"

text \<open>
  \<^verbatim>\<open>Interface.process_received_tie_packet\<close> (interface.py, lines 713-720): the node
  processes the TIE, then the interface transmits and acknowledges what the node returned.
\<close>

definition interface_process_received_tie_packet ::
  "spf_run_direction_fun \<Rightarrow> node \<Rightarrow> interface \<Rightarrow> tie_packet \<Rightarrow> error + (node \<times> interface)" where
  "interface_process_received_tie_packet spf_run_direction n intf tie_packet =
     (case process_received_tie_packet spf_run_direction n tie_packet of
        Inl e \<Rightarrow> Inl e
      | Inr (n1, start_sending_tie_header, ack_tie_header) \<Rightarrow>
          (case (case start_sending_tie_header of
                   None \<Rightarrow> Inr intf
                 | Some h \<Rightarrow> try_to_transmit_tie n1 intf h) of
             Inl e \<Rightarrow> Inl e
           | Inr intf1 \<Rightarrow>
               Inr (n1, (case ack_tie_header of
                           None \<Rightarrow> intf1
                         | Some h \<Rightarrow> ack_tie intf1 h))))"

section \<open>ZTP offers\<close>

text \<open>
  \<^verbatim>\<open>better_offer\<close> (node.py, lines 162-193). \<open>None\<close> is "no offer". Ordering two levels
  of which one is undefined raises \<open>TypeError\<close> in Python. The two level tests are the
  ones of the source, in its order.
\<close>

definition better_offer :: "offer option \<Rightarrow> offer option \<Rightarrow> bool \<Rightarrow> error + offer option" where
  "better_offer offer1 offer2 three_way_only =
     (let offer1 = (case offer1 of Some a \<Rightarrow> if removed a then None else offer1 | None \<Rightarrow> None);
          offer2 = (case offer2 of Some b \<Rightarrow> if removed b then None else offer2 | None \<Rightarrow> None);
          offer1 = (case offer1 of
                      Some a \<Rightarrow> if offer_not_a_ztp_offer a then None else offer1
                    | None \<Rightarrow> None);
          offer2 = (case offer2 of
                      Some b \<Rightarrow> if offer_not_a_ztp_offer b then None else offer2
                    | None \<Rightarrow> None);
          offer1 = (if three_way_only then
                      (case offer1 of
                         Some a \<Rightarrow> if offer_state a \<noteq> THREE_WAY then None else offer1
                       | None \<Rightarrow> None)
                    else offer1);
          offer2 = (if three_way_only then
                      (case offer2 of
                         Some b \<Rightarrow> if offer_state b \<noteq> THREE_WAY then None else offer2
                       | None \<Rightarrow> None)
                    else offer2)
      in case offer1 of
           None \<Rightarrow> Inr offer2
         | Some a \<Rightarrow>
             (case offer2 of
                None \<Rightarrow> Inr offer1
              | Some b \<Rightarrow>
                  (case (offer_level a, offer_level b) of
                     (Some level1, Some level2) \<Rightarrow>
                       if level1 > level2 then Inr offer1
                       else if level2 < level1 then Inr offer2
                       else if offer_system_id a < offer_system_id b then Inr offer1
                       else Inr offer2
                   | _ \<Rightarrow> Inl TypeError)))"

text \<open>
  The loop of \<^verbatim>\<open>compare_offers\<close> (node.py, lines 197-203) over the values of
  \<^verbatim>\<open>_rx_offers\<close>, in the order of the dictionary: the pair (best offer, best offer in
  three-way state) so far.
\<close>

fun compare_offers_loop ::
  "offer list \<Rightarrow> offer option \<times> offer option \<Rightarrow> error + (offer option \<times> offer option)" where
  "compare_offers_loop [] acc = Inr acc"
| "compare_offers_loop (compared_offer # rest) (best_offer, best_offer_three_way) =
     (case better_offer best_offer (Some compared_offer) False of
        Inl e \<Rightarrow> Inl e
      | Inr best_offer1 \<Rightarrow>
          (case better_offer best_offer_three_way (Some compared_offer) True of
             Inl e \<Rightarrow> Inl e
           | Inr best_offer_three_way1 \<Rightarrow>
               compare_offers_loop rest (best_offer1, best_offer_three_way1)))"

text \<open>
  \<^verbatim>\<open>compare_offers\<close> (node.py, lines 195-229). The dictionary \<^verbatim>\<open>_rx_offers\<close> holds each
  offer under its interface name, and the code sets the flags on the offer objects
  themselves: every flag is cleared in the loop, then the two winners are flagged. Here
  the winners are found first and each entry gets its flags by its key. The test
  \<^verbatim>\<open>if hal:\<close> is false for an undefined level and for level 0.
\<close>

definition compare_offers :: "node \<Rightarrow> error + node" where
  "compare_offers n =
     (case compare_offers_loop (map snd (rx_offers n)) (None, None) of
        Inl e \<Rightarrow> Inl e
      | Inr (best_offer, best_offer_three_way) \<Rightarrow>
          (let flagged =
                 map (\<lambda>(k, v).
                        (k, v\<lparr>best := (case best_offer of
                                         Some w \<Rightarrow> interface_name w = k | None \<Rightarrow> False),
                               best_three_way := (case best_offer_three_way of
                                         Some w \<Rightarrow> interface_name w = k | None \<Rightarrow> False)\<rparr>))
                     (rx_offers n);
               hal = (case best_offer of Some w \<Rightarrow> offer_level w | None \<Rightarrow> None);
               events1 = (if highest_available_level n \<noteq> hal then
                            (if hal \<noteq> None \<and> hal \<noteq> Some 0 then [BETTER_HAL] else [LOST_HAL])
                          else []);
               hat = (case best_offer_three_way of Some w \<Rightarrow> offer_level w | None \<Rightarrow> None);
               events2 = (if highest_adjacency_three_way n \<noteq> hat then
                            (if hat \<noteq> None \<and> hat \<noteq> Some 0 then [BETTER_HAT] else [LOST_HAT])
                          else [])
           in Inr (n\<lparr>rx_offers := flagged,
                     node_events := node_events n @ events1 @ events2\<rparr>)))"

section \<open>Received LIE packets\<close>

text \<open>
  Python's \<^verbatim>\<open>str\<close> of an integer, which \<^verbatim>\<open>format\<close> puts into a message: the decimal
  digits, after a minus sign for a negative number.
\<close>

fun str_nat :: "nat \<Rightarrow> string" where
  "str_nat n =
     (if n < 10 then [char_of (48 + n)]
      else str_nat (n div 10) @ [char_of (48 + n mod 10)])"

declare str_nat.simps [simp del]

definition str_int :: "int \<Rightarrow> string" where
  "str_int i = (if i < 0 then ''-'' @ str_nat (nat (- i)) else str_nat (nat i))"

definition UNDEFINED_OR_ANY_POD :: int where
  "UNDEFINED_OR_ANY_POD = 0"

text \<open>\<^verbatim>\<open>is_valid_received_system_id\<close> (interface.py, lines 641-644).\<close>

definition is_valid_received_system_id :: "int \<Rightarrow> bool" where
  "is_valid_received_system_id sysid = (if sysid = 0 then False else True)"

text \<open>\<^verbatim>\<open>this_node_is_leaf\<close> (interface.py, lines 273-274).\<close>

definition this_node_is_leaf :: "node \<Rightarrow> bool" where
  "this_node_is_leaf n = (level_value n = Some leaf_level)"

text \<open>
  \<^verbatim>\<open>hat_not_greater_remote_level\<close> (interface.py, lines 276-279). Its one caller passes
  a level that it has checked to be defined.
\<close>

definition hat_not_greater_remote_level :: "node \<Rightarrow> int \<Rightarrow> bool" where
  "hat_not_greater_remote_level n remote_level =
     (case highest_adjacency_three_way n of
        None \<Rightarrow> True
      | Some hat \<Rightarrow> hat \<le> remote_level)"

text \<open>\<^verbatim>\<open>both_nodes_support_leaf_2_leaf\<close> (interface.py, lines 281-300).\<close>

definition both_nodes_support_leaf_2_leaf :: "node \<Rightarrow> packet_header \<Rightarrow> lie_packet \<Rightarrow> bool" where
  "both_nodes_support_leaf_2_leaf n hdr l =
     (if \<not> this_node_is_leaf n then False
      else if hdr_level hdr \<noteq> Some 0 then False
      else if \<not> leaf_2_leaf n then False
      else case capabilities l of
             None \<Rightarrow> False
           | Some caps \<Rightarrow>
               if hierarchy_indications caps \<noteq> Some leaf_only_and_leaf_2_leaf_procedures
               then False
               else True)"

text \<open>
  \<^verbatim>\<open>neither_leaf_and_ldiff_one\<close> (interface.py, lines 302-316), with its two assertions.
\<close>

definition neither_leaf_and_ldiff_one :: "node \<Rightarrow> packet_header \<Rightarrow> error + bool" where
  "neither_leaf_and_ldiff_one n hdr =
     (if this_node_is_leaf n then Inr False
      else if hdr_level hdr = Some 0 then Inr False
      else case (level_value n, hdr_level hdr) of
             (Some my_level, Some remote_level) \<Rightarrow>
               if \<bar>remote_level - my_level\<bar> > 1 then Inr False else Inr True
           | _ \<Rightarrow> Inl AssertionError)"

text \<open>
  \<^verbatim>\<open>is_received_lie_acceptable\<close> (interface.py, lines 318-383). The result is
  (accept, rule, offer_to_ztp, warning). \<^verbatim>\<open>constants.RIFT_MAJOR_VERSION\<close> is not among the
  sources and the spec gives no value: it is the parameter \<open>rift_major_version\<close>.
\<close>

definition is_received_lie_acceptable ::
  "int \<Rightarrow> node \<Rightarrow> interface \<Rightarrow> protocol_packet \<Rightarrow> error + (bool \<times> string \<times> bool \<times> bool)" where
  "is_received_lie_acceptable rift_major_version n intf protocol_packet =
     (case pkt_header protocol_packet of
        None \<Rightarrow> Inr (False, ''Missing header'', False, True)
      | Some hdr \<Rightarrow>
          (let l = lie protocol_packet in
           if major_version hdr \<noteq> rift_major_version then
             Inr (False,
                  ''Different major protocol version (local version '' @
                    str_int rift_major_version @ '', remote version '' @
                    str_int (major_version hdr) @ '')'',
                  False, True)
           else if \<not> is_valid_received_system_id (sender hdr) then
             Inr (False, ''Invalid system ID'', False, True)
           else if system_id n = sender hdr then
             Inr (False, ''Remote system ID is same as local system ID (loop)'', False, False)
           else if mtu intf \<noteq> link_mtu_size l then
             Inr (False, ''MTU mismatch'', False, True)
           else case hdr_level hdr of
             None \<Rightarrow> Inr (False, ''Remote level (in received LIE) is undefined'', True, False)
           | Some remote_level \<Rightarrow>
               if level_value n = None then
                 Inr (False, ''My level is undefined'', True, False)
               else if pod intf \<noteq> UNDEFINED_OR_ANY_POD \<and> lie_pod l \<noteq> UNDEFINED_OR_ANY_POD \<and>
                       pod intf \<noteq> lie_pod l then
                 Inr (False, ''PoD mismatch'', True, True)
               else if mtu intf \<noteq> link_mtu_size l then
                 Inr (False, ''MTU mismatch'', True, True)
               else if this_node_is_leaf n \<and> hat_not_greater_remote_level n remote_level then
                 Inr (True, ''This node is leaf and HAT not greater than remote level'', True, False)
               else if \<not> this_node_is_leaf n \<and> remote_level = 0 then
                 Inr (True, ''This node is not leaf and neighbor is leaf'', True, False)
               else if both_nodes_support_leaf_2_leaf n hdr l then
                 Inr (True, ''Both nodes are leaf and support leaf-2-leaf'', True, False)
               else case neither_leaf_and_ldiff_one n hdr of
                      Inl e \<Rightarrow> Inl e
                    | Inr True \<Rightarrow>
                        Inr (True, ''Neither node is leaf and level difference is at most one'',
                             True, False)
                    | Inr False \<Rightarrow> Inr (False, ''Level mismatch'', True, True)))"

section \<open>Processing a LIE and the hold timer\<close>

text \<open>
  Modelled from the spec: the constructor of \<^verbatim>\<open>neighbor.Neighbor\<close> is not among the
  sources; it captures the neighbor from the LIE and the address it came from. Reading
  the sender of a packet without header raises \<open>AttributeError\<close>.
\<close>

definition new_Neighbor :: "protocol_packet \<Rightarrow> string \<Rightarrow> int \<Rightarrow> error + neighbor" where
  "new_Neighbor protocol_packet from_address from_port =
     (case pkt_header protocol_packet of
        None \<Rightarrow> Inl AttributeError
      | Some hdr \<Rightarrow>
          (let l = lie protocol_packet in
           Inr \<lparr>nb_name = lie_name l, nb_system_id = sender hdr, nb_level = hdr_level hdr,
                nb_address = from_address, nb_flood_port = lie_flood_port l,
                nb_local_id = lie_local_id l,
                nb_neighbor_system_id = map_option fst (lie_neighbor l),
                nb_neighbor_link_id = map_option snd (lie_neighbor l),
                nb_holdtime = lie_holdtime l,
                nb_not_a_ztp_offer = lie_not_a_ztp_offer l\<rparr>))"

text \<open>
  Modelled from the spec: the constructor of \<^verbatim>\<open>offer.RxOffer\<close> is not among the sources;
  a new offer is neither removed nor flagged.
\<close>

definition RxOffer :: "string \<Rightarrow> int \<Rightarrow> int option \<Rightarrow> bool \<Rightarrow> State \<Rightarrow> offer" where
  "RxOffer ifname sysid lvl nazo st =
     \<lparr>interface_name = ifname, offer_system_id = sysid, offer_level = lvl,
      offer_not_a_ztp_offer = nazo, offer_state = st, removed = False,
      removed_reason = [], best = False, best_three_way = False\<rparr>"

text \<open>\<^verbatim>\<open>action_cleanup\<close> (interface.py, lines 202-203).\<close>

definition action_cleanup :: "interface \<Rightarrow> interface" where
  "action_cleanup intf = intf\<lparr>neighbor := None\<rparr>"

text \<open>\<^verbatim>\<open>send_offer_to_ztp_fsm\<close> (interface.py, lines 264-271).\<close>

definition send_offer_to_ztp_fsm :: "node \<Rightarrow> interface \<Rightarrow> neighbor \<Rightarrow> node" where
  "send_offer_to_ztp_fsm n intf offering_neighbor =
     n\<lparr>node_events := node_events n @
          [NEIGHBOR_OFFER (RxOffer (name intf) (nb_system_id offering_neighbor)
             (nb_level offering_neighbor) (nb_not_a_ztp_offer offering_neighbor) (state intf))]\<rparr>"

text \<open>\<^verbatim>\<open>check_reflection\<close> (interface.py, lines 205-216).\<close>

definition check_reflection :: "node \<Rightarrow> interface \<Rightarrow> error + bool" where
  "check_reflection n intf =
     (case neighbor intf of
        None \<Rightarrow> Inl AttributeError
      | Some nb \<Rightarrow>
          if nb_neighbor_system_id nb \<noteq> Some (system_id n) then Inr False
          else if nb_neighbor_link_id nb \<noteq> Some (local_id intf) then Inr False
          else Inr True)"

text \<open>\<^verbatim>\<open>check_three_way\<close> (interface.py, lines 218-237).\<close>

definition check_three_way :: "node \<Rightarrow> interface \<Rightarrow> error + interface" where
  "check_three_way n intf =
     (if state intf = ONE_WAY then Inr intf
      else case neighbor intf of
        None \<Rightarrow> Inl AttributeError
      | Some nb \<Rightarrow>
          if state intf = TWO_WAY then
            (if nb_neighbor_system_id nb = None then Inr intf
             else case check_reflection n intf of
                    Inl e \<Rightarrow> Inl e
                  | Inr True \<Rightarrow> Inr (intf\<lparr>events := events intf @ [VALID_REFLECTION]\<rparr>)
                  | Inr False \<Rightarrow> Inr (intf\<lparr>events := events intf @ [MULTIPLE_NEIGHBORS]\<rparr>))
          else
            (if nb_neighbor_system_id nb = None
             then Inr (intf\<lparr>events := events intf @ [NEIGHBOR_DROPPED_REFLECTION]\<rparr>)
             else case check_reflection n intf of
                    Inl e \<Rightarrow> Inl e
                  | Inr True \<Rightarrow> Inr intf
                  | Inr False \<Rightarrow> Inr (intf\<lparr>events := events intf @ [MULTIPLE_NEIGHBORS]\<rparr>)))"

text \<open>\<^verbatim>\<open>check_minor_change\<close> (interface.py, lines 239-262).\<close>

definition check_minor_change :: "interface \<Rightarrow> neighbor \<Rightarrow> error + bool" where
  "check_minor_change intf new_neighbor =
     (case neighbor intf of
        None \<Rightarrow> Inl AttributeError
      | Some nb \<Rightarrow>
          if nb_flood_port new_neighbor \<noteq> nb_flood_port nb then Inr True
          else if nb_name new_neighbor \<noteq> nb_name nb then Inr True
          else if nb_local_id new_neighbor \<noteq> nb_local_id nb then Inr True
          else Inr False)"

text \<open>
  \<^verbatim>\<open>action_process_lie\<close> (interface.py, lines 385-441). The event data is the packet
  with the address and port it came from. The first statement resets the tick counter,
  before the LIE is examined.
\<close>

definition action_process_lie ::
  "int \<Rightarrow> node \<Rightarrow> interface \<Rightarrow> protocol_packet \<times> string \<times> int \<Rightarrow> error + (node \<times> interface)" where
  "action_process_lie rift_major_version n intf event_data =
     (case event_data of (protocol_packet, from_address, from_port) \<Rightarrow>
      let intf = intf\<lparr>time_ticks_since_lie_received := Some 0\<rparr> in
      case new_Neighbor protocol_packet from_address from_port of
        Inl e \<Rightarrow> Inl e
      | Inr new_neighbor \<Rightarrow>
      (case is_received_lie_acceptable rift_major_version n intf protocol_packet of
         Inl e \<Rightarrow> Inl e
       | Inr (accept, rule, offer_to_ztp, warning) \<Rightarrow>
           if \<not> accept then
             (let intf = intf\<lparr>lie_accept_or_reject := ''Rejected'',
                               lie_accept_or_reject_rule := rule\<rparr>;
                  intf = action_cleanup intf
              in if offer_to_ztp
                 then Inr (send_offer_to_ztp_fsm n intf new_neighbor,
                           intf\<lparr>events := events intf @ [UNACCEPTABLE_HEADER]\<rparr>)
                 else Inr (n, intf))
           else
             (let intf = intf\<lparr>lie_accept_or_reject := ''Accepted'',
                               lie_accept_or_reject_rule := rule\<rparr>;
                  n = send_offer_to_ztp_fsm n intf new_neighbor
              in case neighbor intf of
                   None \<Rightarrow>
                     (case check_three_way n
                             (intf\<lparr>neighbor := Some new_neighbor,
                                    events := events intf @ [NEW_NEIGHBOR]\<rparr>) of
                        Inl e \<Rightarrow> Inl e
                      | Inr intf1 \<Rightarrow> Inr (n, intf1))
                 | Some nb \<Rightarrow>
                     if nb_system_id new_neighbor \<noteq> nb_system_id nb then
                       Inr (n, intf\<lparr>events := events intf @ [MULTIPLE_NEIGHBORS]\<rparr>)
                     else if nb_level new_neighbor \<noteq> nb_level nb then
                       Inr (n, intf\<lparr>events := events intf @ [NEIGHBOR_CHANGED_LEVEL]\<rparr>)
                     else if nb_address new_neighbor \<noteq> nb_address nb then
                       Inr (n, intf\<lparr>events := events intf @ [NEIGHBOR_CHANGED_ADDRESS]\<rparr>)
                     else
                       (case check_minor_change intf new_neighbor of
                          Inl e \<Rightarrow> Inl e
                        | Inr minor \<Rightarrow>
                            (let intf = (if minor
                                         then intf\<lparr>events := events intf @
                                                      [NEIGHBOR_CHANGED_MINOR_FIELDS]\<rparr>
                                         else intf);
                                 intf = intf\<lparr>neighbor := Some new_neighbor\<rparr>
                             in case check_three_way n intf of
                                  Inl e \<Rightarrow> Inl e
                                | Inr intf1 \<Rightarrow> Inr (n, intf1))))))"

text \<open>
  \<^verbatim>\<open>action_check_hold_time_expired\<close> (interface.py, lines 443-455). The counter is not
  running while it is \<open>None\<close>. A hold time that is absent or 0 is false in the test
  \<^verbatim>\<open>self.neighbor.holdtime\<close>.
\<close>

definition action_check_hold_time_expired :: "interface \<Rightarrow> interface" where
  "action_check_hold_time_expired intf =
     (case time_ticks_since_lie_received intf of
        None \<Rightarrow> intf
      | Some ticks \<Rightarrow>
          (let ticks1 = ticks + 1;
               holdtime =
                 (case neighbor intf of
                    None \<Rightarrow> default_lie_holdtime
                  | Some nb \<Rightarrow>
                      (case nb_holdtime nb of
                         None \<Rightarrow> default_lie_holdtime
                       | Some h \<Rightarrow> if h \<noteq> 0 then h else default_lie_holdtime));
               intf1 = intf\<lparr>time_ticks_since_lie_received := Some ticks1\<rparr>
           in if ticks1 \<ge> holdtime
              then intf1\<lparr>events := events intf1 @ [HOLD_TIME_EXPIRED]\<rparr>
              else intf1))"

text \<open>The names of the actions that the transition tables refer to.\<close>

datatype action =
    Action_update_level
  | Action_store_hal
  | Action_store_hat
  | Action_store_hals
  | Action_process_lie
  | Action_check_hold_time_expired
  | Action_hold_time_expired
  | Action_send_lie

text \<open>
  The transition tables \<^verbatim>\<open>_state_one_way_transitions\<close>, \<^verbatim>\<open>_state_two_way_transitions\<close>
  and \<^verbatim>\<open>_state_three_way_transitions\<close> (interface.py, lines 460-507): for a state and
  an event, the new state if any, the actions to run and the events to push.
\<close>

fun transitions :: "State \<Rightarrow> Event \<Rightarrow> (State option \<times> action list \<times> Event list) option" where
  "transitions ONE_WAY TIMER_TICK = Some (None, [], [SEND_LIE])"
| "transitions ONE_WAY LEVEL_CHANGED = Some (Some ONE_WAY, [Action_update_level], [SEND_LIE])"
| "transitions ONE_WAY HAL_CHANGED = Some (None, [Action_store_hal], [])"
| "transitions ONE_WAY HAT_CHANGED = Some (None, [Action_store_hat], [])"
| "transitions ONE_WAY HALS_CHANGED = Some (None, [Action_store_hals], [])"
| "transitions ONE_WAY LIE_RECEIVED = Some (None, [Action_process_lie], [])"
| "transitions ONE_WAY NEW_NEIGHBOR = Some (Some TWO_WAY, [], [SEND_LIE])"
| "transitions ONE_WAY UNACCEPTABLE_HEADER = Some (Some ONE_WAY, [], [])"
| "transitions ONE_WAY HOLD_TIME_EXPIRED = Some (None, [Action_hold_time_expired], [])"
| "transitions ONE_WAY SEND_LIE = Some (None, [Action_send_lie], [])"
| "transitions ONE_WAY _ = None"
| "transitions TWO_WAY TIMER_TICK = Some (None, [Action_check_hold_time_expired], [SEND_LIE])"
| "transitions TWO_WAY LEVEL_CHANGED = Some (Some ONE_WAY, [Action_update_level], [])"
| "transitions TWO_WAY HAL_CHANGED = Some (None, [Action_store_hal], [])"
| "transitions TWO_WAY HAT_CHANGED = Some (None, [Action_store_hat], [])"
| "transitions TWO_WAY HALS_CHANGED = Some (None, [Action_store_hals], [])"
| "transitions TWO_WAY LIE_RECEIVED = Some (None, [Action_process_lie], [])"
| "transitions TWO_WAY VALID_REFLECTION = Some (Some THREE_WAY, [], [])"
| "transitions TWO_WAY NEIGHBOR_CHANGED_LEVEL = Some (Some ONE_WAY, [], [])"
| "transitions TWO_WAY NEIGHBOR_CHANGED_ADDRESS = Some (Some ONE_WAY, [], [])"
| "transitions TWO_WAY UNACCEPTABLE_HEADER = Some (Some ONE_WAY, [], [])"
| "transitions TWO_WAY HOLD_TIME_EXPIRED = Some (Some ONE_WAY, [Action_hold_time_expired], [])"
| "transitions TWO_WAY MULTIPLE_NEIGHBORS = Some (Some ONE_WAY, [], [])"
| "transitions TWO_WAY LIE_CORRUPT = Some (Some ONE_WAY, [], [])"
| "transitions TWO_WAY SEND_LIE = Some (None, [Action_send_lie], [])"
| "transitions TWO_WAY _ = None"
| "transitions THREE_WAY TIMER_TICK = Some (None, [Action_check_hold_time_expired], [SEND_LIE])"
| "transitions THREE_WAY LEVEL_CHANGED = Some (Some ONE_WAY, [Action_update_level], [])"
| "transitions THREE_WAY HAL_CHANGED = Some (None, [Action_store_hal], [])"
| "transitions THREE_WAY HAT_CHANGED = Some (None, [Action_store_hat], [])"
| "transitions THREE_WAY HALS_CHANGED = Some (None, [Action_store_hals], [])"
| "transitions THREE_WAY LIE_RECEIVED = Some (None, [Action_process_lie], [])"
| "transitions THREE_WAY NEIGHBOR_DROPPED_REFLECTION = Some (Some TWO_WAY, [], [])"
| "transitions THREE_WAY NEIGHBOR_CHANGED_LEVEL = Some (Some ONE_WAY, [], [])"
| "transitions THREE_WAY NEIGHBOR_CHANGED_ADDRESS = Some (Some ONE_WAY, [], [])"
| "transitions THREE_WAY UNACCEPTABLE_HEADER = Some (Some ONE_WAY, [], [])"
| "transitions THREE_WAY HOLD_TIME_EXPIRED = Some (Some ONE_WAY, [Action_hold_time_expired], [])"
| "transitions THREE_WAY MULTIPLE_NEIGHBORS = Some (Some ONE_WAY, [], [])"
| "transitions THREE_WAY LIE_CORRUPT = Some (Some ONE_WAY, [], [])"
| "transitions THREE_WAY SEND_LIE = Some (None, [Action_send_lie], [])"
| "transitions THREE_WAY _ = None"

text \<open>
  Modelled from the spec: the generic state-machine harness (\<^verbatim>\<open>fsm.Fsm\<close>) is not among
  the sources. By the spec an event runs the actions of its transition and pushes the
  events the transition lists. This is the processing of \<open>TIMER_TICK\<close>: in every state
  its transition keeps the state, and \<^verbatim>\<open>action_check_hold_time_expired\<close> is the only action
  that any of the three rows names.
\<close>

definition process_timer_tick :: "interface \<Rightarrow> interface" where
  "process_timer_tick intf =
     (case transitions (state intf) TIMER_TICK of
        None \<Rightarrow> intf
      | Some (to_state, actions, push_events) \<Rightarrow>
          (let intf1 = (if Action_check_hold_time_expired \<in> set actions
                        then action_check_hold_time_expired intf else intf)
           in intf1\<lparr>events := events intf1 @ push_events\<rparr>))"

section \<open>Sending a LIE\<close>

text \<open>\<^verbatim>\<open>zero_touch_provisioning_enabled\<close> (node.py, lines 589-600).\<close>

definition zero_touch_provisioning_enabled :: "node \<Rightarrow> bool" where
  "zero_touch_provisioning_enabled n =
     (if configured_level n \<noteq> None then False
      else if top_of_fabric_flag n then False
      else if leaf_only n then False
      else True)"

text \<open>\<^verbatim>\<open>send_not_a_ztp_offer_on_intf\<close> (node.py, lines 566-587).\<close>

definition send_not_a_ztp_offer_on_intf :: "node \<Rightarrow> string \<Rightarrow> bool" where
  "send_not_a_ztp_offer_on_intf n ifname =
     (if \<not> zero_touch_provisioning_enabled n then False
      else case map_of (rx_offers n) ifname of
             None \<Rightarrow> False
           | Some rx_offer \<Rightarrow>
               if removed rx_offer then False
               else if offer_level rx_offer = highest_available_level n then True
               else False)"

text \<open>
  The LIE that \<^verbatim>\<open>action_send_lie\<close> builds (interface.py, lines 167-190). The nonce is
  random in the code: a parameter here. The capabilities are the same on every node,
  whatever its configuration.
\<close>

definition lie_packet_to_send :: "node \<Rightarrow> interface \<Rightarrow> int \<Rightarrow> lie_packet" where
  "lie_packet_to_send n intf nonce =
     \<lparr>lie_name = advertised_name intf,
      lie_local_id = local_id intf,
      lie_flood_port = rx_tie_port intf,
      link_mtu_size = mtu intf,
      lie_neighbor = (case neighbor intf of
                        None \<Rightarrow> None
                      | Some nb \<Rightarrow> Some (nb_system_id nb, nb_local_id nb)),
      lie_pod = pod intf,
      lie_nonce = nonce,
      capabilities = Some \<lparr>flood_reduction = True,
                            hierarchy_indications = Some leaf_only_and_leaf_2_leaf_procedures\<rparr>,
      lie_holdtime = Some 3,
      lie_not_a_ztp_offer = send_not_a_ztp_offer_on_intf n (name intf),
      you_are_flood_repeater = True,
      lie_label = None\<rparr>"

text \<open>
  \<^verbatim>\<open>action_send_lie\<close> (interface.py, lines 163-200), with \<^verbatim>\<open>send_protocol_packet\<close> on
  the LIE handler and \<^verbatim>\<open>record_tx_offer\<close> (node.py, lines 563-564).
\<close>

definition action_send_lie :: "node \<Rightarrow> interface \<Rightarrow> int \<Rightarrow> error + (node \<times> interface)" where
  "action_send_lie n intf nonce =
     (let lie_packet = lie_packet_to_send n intf nonce;
          protocol_packet =
            \<lparr>sl_sender = system_id n, sl_level = level_value n, sl_lie = lie_packet\<rparr>
      in if \<not> lie_send_handler intf then Inl AttributeError
         else
           (let intf1 = (if tx_fail intf then intf
                         else intf\<lparr>sent_lies := sent_lies intf @ [protocol_packet]\<rparr>);
                tx_offer = \<lparr>tx_interface_name = name intf, tx_system_id = system_id n,
                            tx_level = level_value n,
                            tx_not_a_ztp_offer = lie_not_a_ztp_offer lie_packet,
                            tx_state = state intf\<rparr>
            in Inr (n\<lparr>tx_offers := od_set (name intf) tx_offer (tx_offers n)\<rparr>, intf1)))"

section \<open>The claims in the words of the specification\<close>

text \<open>
  The acceptance condition of a received LIE as the specification words it, for a LIE
  that passed the earlier checks: (1) this node is a leaf and HAT is at most the
  sender's level; (2) this node is not a leaf and the sender's level is 0; (3) both nodes
  are leaf and both advertise the leaf-to-leaf capability; (4) neither node is leaf and
  the levels differ by at most 1. HAT is the highest level seen on a three-way adjacency:
  while none has been seen it is undefined and exceeds no level. What a node advertises is
  the capabilities of the LIE it sends, \<open>own_lie\<close> for this node and \<open>l\<close> for the sender.
\<close>

definition advertises_leaf_2_leaf :: "lie_packet \<Rightarrow> bool" where
  "advertises_leaf_2_leaf l =
     (case capabilities l of
        None \<Rightarrow> False
      | Some caps \<Rightarrow> hierarchy_indications caps = Some leaf_only_and_leaf_2_leaf_procedures)"

definition claimed_lie_acceptance :: "node \<Rightarrow> lie_packet \<Rightarrow> int \<Rightarrow> lie_packet \<Rightarrow> bool" where
  "claimed_lie_acceptance n own_lie sender_level l =
     ((this_node_is_leaf n \<and>
         (case highest_adjacency_three_way n of None \<Rightarrow> True | Some hat \<Rightarrow> hat \<le> sender_level))
      \<or> (\<not> this_node_is_leaf n \<and> sender_level = 0)
      \<or> (this_node_is_leaf n \<and> sender_level = 0 \<and>
          advertises_leaf_2_leaf own_lie \<and> advertises_leaf_2_leaf l)
      \<or> (\<not> this_node_is_leaf n \<and> sender_level \<noteq> 0 \<and>
          (case level_value n of None \<Rightarrow> False | Some my_level \<Rightarrow> \<bar>sender_level - my_level\<bar> \<le> 1)))"

text \<open>
  The hold time that the hold timer runs against, in the words of the specification:
  the hold time the neighbor advertised, 3 seconds by default (no neighbor, or none or 0
  advertised).
\<close>

definition holdtime_in_force :: "interface \<Rightarrow> int" where
  "holdtime_in_force intf =
     (case neighbor intf of
        None \<Rightarrow> 3
      | Some nb \<Rightarrow> (case nb_holdtime nb of None \<Rightarrow> 3 | Some h \<Rightarrow> if h = 0 then 3 else h))"

text \<open>
  What "an empty TIE of the same kind" means for an element: the variant that belongs to
  the TIE type, with no neighbors, no prefixes or no key-values.
\<close>

fun empty_element_of_kind :: "tietype \<Rightarrow> tie_element \<Rightarrow> bool" where
  "empty_element_of_kind NodeTIEType (ElemNode ne) = (ne_neighbors ne = [])"
| "empty_element_of_kind PrefixTIEType (ElemPrefixes p) = (prefixes p = [])"
| "empty_element_of_kind PositiveDisaggregationPrefixTIEType
     (ElemPositiveDisaggregationPrefixes p) = (prefixes p = [])"
| "empty_element_of_kind KeyValueTIEType (ElemKeyValues k) = (keyvalues k = [])"
| "empty_element_of_kind _ _ = False"

section \<open>Concrete inputs\<close>

text \<open>An SPF run that raises nothing, in either direction and on any node state.\<close>

definition spf_completes :: spf_run_direction_fun where
  "spf_completes d n = None"

text \<open>A TIE header of node 1's South Node TIE number 1, for concrete evaluations.\<close>

definition example_header :: "int \<Rightarrow> int \<Rightarrow> tie_header" where
  "example_header s l =
     \<lparr>tieid = \<lparr>direction = DIR_SOUTH, originator = 1, tietype = NodeTIEType, tie_nr = 1\<rparr>,
      seq_nr = s, remaining_lifetime = l, origination_time = None\<rparr>"

text \<open>The TIE-ID of node \<open>orig\<close>'s TIE of the given direction, type and number.\<close>

definition example_tie_id :: "direction \<Rightarrow> int \<Rightarrow> tietype \<Rightarrow> int \<Rightarrow> tie_id" where
  "example_tie_id d orig t nr = \<lparr>direction = d, originator = orig, tietype = t, tie_nr = nr\<rparr>"

text \<open>A Node TIE of node 1 at level 1 with no neighbors, sequence number 3.\<close>

definition example_node_tie :: tie_packet where
  "example_node_tie =
     \<lparr>header = example_header 3 1000,
      element = ElemNode \<lparr>ne_name = ''node1'', ne_level = Some 1, ne_neighbors = []\<rparr>\<rparr>"

text \<open>
  Node 1, configured at level 1, whose database holds \<open>example_node_tie\<close> under its
  TIE-ID and nothing else; no SPF has been triggered yet.
\<close>

definition example_node :: node where
  "example_node =
     \<lparr>system_id = 1, configured_level = Some 1, top_of_fabric_flag = True, leaf_only = False,
      leaf_2_leaf = False, derived_level = None, highest_available_level = None,
      highest_adjacency_three_way = None, rx_offers = [], tx_offers = [], node_events = [],
      ties = [tieid (example_header 3 1000) \<mapsto> example_node_tie],
      defer_spf_timer = False, spf_triggers_count = 0, spf_triggers_deferred_count = 0,
      spf_deferred_trigger_pending = False, spf_runs_count = 0, spf_trigger_history = []\<rparr>"

text \<open>Node 2, a configured leaf (level 0) with an empty database.\<close>

definition example_leaf :: node where
  "example_leaf =
     \<lparr>system_id = 2, configured_level = Some 0, top_of_fabric_flag = True, leaf_only = True,
      leaf_2_leaf = False, derived_level = None, highest_available_level = None,
      highest_adjacency_three_way = None, rx_offers = [], tx_offers = [], node_events = [],
      ties = Map.empty,
      defer_spf_timer = False, spf_triggers_count = 0, spf_triggers_deferred_count = 0,
      spf_deferred_trigger_pending = False, spf_runs_count = 0, spf_trigger_history = []\<rparr>"

text \<open>
  The same leaf once it has a three-way adjacency with a node at level 1: HAL and HAT
  are 1. Leaf-to-leaf is not enabled on it.
\<close>

definition example_leaf_three_way :: node where
  "example_leaf_three_way =
     example_leaf\<lparr>highest_available_level := Some 1, highest_adjacency_three_way := Some 1\<rparr>"

text \<open>
  A neighbor with the given system id and level, and an interface in the given state
  that holds it, with empty queues; its flood handler exists in state THREE_WAY.
\<close>

definition example_neighbor :: "int \<Rightarrow> int \<Rightarrow> neighbor" where
  "example_neighbor sysid lvl =
     \<lparr>nb_name = ''peer'', nb_system_id = sysid, nb_level = Some lvl, nb_address = ''10.0.0.1'',
      nb_flood_port = 10001, nb_local_id = 1, nb_neighbor_system_id = None,
      nb_neighbor_link_id = None, nb_holdtime = Some 3, nb_not_a_ztp_offer = False\<rparr>"

definition example_interface :: "State \<Rightarrow> neighbor option \<Rightarrow> interface" where
  "example_interface st nb =
     \<lparr>name = ''if1'', advertised_name = ''node-if1'', local_id = 1, mtu = 1400, pod = 0,
      rx_tie_port = 10001, neighbor = nb, state = st,
      events = [], time_ticks_since_lie_received = None,
      lie_accept_or_reject = ''No LIE Received'', lie_accept_or_reject_rule = ''-'',
      tx_fail = False, lie_send_handler = True, flood_send_handler = (st = THREE_WAY),
      sent_lies = [], sent_ties = [],
      ties_tx = [], ties_rtx = [], ties_req = [], ties_ack = []\<rparr>"

text \<open>A ZTP offer as \<^verbatim>\<open>RxOffer\<close> builds it: not removed, not flagged.\<close>

definition example_offer :: "string \<Rightarrow> int \<Rightarrow> int \<Rightarrow> State \<Rightarrow> offer" where
  "example_offer ifname sysid lvl st =
     \<lparr>interface_name = ifname, offer_system_id = sysid, offer_level = Some lvl,
      offer_not_a_ztp_offer = False, offer_state = st, removed = False,
      removed_reason = [], best = False, best_three_way = False\<rparr>"

text \<open>
  Node 3 with no configured level (ZTP active) that holds two offers: from node 1 at
  level 1 on interface if1 and from node 2 at level 2 on interface if2.
\<close>

definition example_ztp_node :: node where
  "example_ztp_node =
     \<lparr>system_id = 3, configured_level = None, top_of_fabric_flag = False, leaf_only = False,
      leaf_2_leaf = False, derived_level = None, highest_available_level = None,
      highest_adjacency_three_way = None,
      rx_offers = [(''if1'', example_offer ''if1'' 1 1 THREE_WAY),
                   (''if2'', example_offer ''if2'' 2 2 THREE_WAY)],
      tx_offers = [], node_events = [], ties = Map.empty,
      defer_spf_timer = False, spf_triggers_count = 0, spf_triggers_deferred_count = 0,
      spf_deferred_trigger_pending = False, spf_runs_count = 0, spf_trigger_history = []\<rparr>"

text \<open>
  A LIE from the node with the given system id and level, protocol version 1, MTU 1400,
  any PoD, advertising leaf-to-leaf and a hold time of 3 seconds, naming no peer.
\<close>

definition example_lie :: "int \<Rightarrow> int option \<Rightarrow> protocol_packet" where
  "example_lie sysid lvl =
     \<lparr>pkt_header = Some \<lparr>major_version = 1, sender = sysid, hdr_level = lvl\<rparr>,
      lie = \<lparr>lie_name = ''peer'', lie_local_id = 1, lie_flood_port = 10001,
             link_mtu_size = 1400, lie_neighbor = None, lie_pod = 0, lie_nonce = 12345,
             capabilities = Some \<lparr>flood_reduction = True,
               hierarchy_indications = Some leaf_only_and_leaf_2_leaf_procedures\<rparr>,
             lie_holdtime = Some 3, lie_not_a_ztp_offer = False,
             you_are_flood_repeater = True, lie_label = None\<rparr>\<rparr>"

section \<open>Properties of the age comparison\<close>

lemma compare_tie_header_age_total:
  "tieid a = tieid b \<Longrightarrow> \<exists>r. compare_tie_header_age a b = Inr r \<and> r \<in> {- 1, 0, 1}"
  by (simp add: compare_tie_header_age_def Let_def)

text \<open>
  C1. For two headers with the same TIE-ID the comparison follows three ordered rules:
  (1) the header with the higher sequence number is newer; (2) with equal sequence
  numbers, a header with non-zero remaining lifetime is newer than one with zero remaining
  lifetime; (3) otherwise (equal sequence numbers, both lifetimes zero or both non-zero)
  the header with the longer remaining lifetime is newer when the lifetimes differ by more
  than 300 seconds, and the two headers have the same age when they differ by at most 300.
  Newer is the result 1 (and -1 with the arguments swapped), same age is 0.
\<close>

theorem compare_tie_header_age_rules:
  assumes "tieid a = tieid b"
  shows "(seq_nr a > seq_nr b \<longrightarrow>
            compare_tie_header_age a b = Inr 1 \<and> compare_tie_header_age b a = Inr (- 1))
       \<and> (seq_nr a = seq_nr b \<and> remaining_lifetime a \<noteq> 0 \<and> remaining_lifetime b = 0 \<longrightarrow>
            compare_tie_header_age a b = Inr 1 \<and> compare_tie_header_age b a = Inr (- 1))
       \<and> (seq_nr a = seq_nr b \<and> (remaining_lifetime a = 0 \<longleftrightarrow> remaining_lifetime b = 0) \<and>
            \<bar>remaining_lifetime a - remaining_lifetime b\<bar> > 300 \<and>
            remaining_lifetime a > remaining_lifetime b \<longrightarrow>
            compare_tie_header_age a b = Inr 1 \<and> compare_tie_header_age b a = Inr (- 1))
       \<and> (seq_nr a = seq_nr b \<and> (remaining_lifetime a = 0 \<longleftrightarrow> remaining_lifetime b = 0) \<and>
            \<bar>remaining_lifetime a - remaining_lifetime b\<bar> \<le> 300 \<longrightarrow>
            compare_tie_header_age a b = Inr 0)"
  using assms by (auto simp: compare_tie_header_age_def lifetime_diff2ignore_def Let_def)

theorem compare_tie_header_age_rules_witness:
  "compare_tie_header_age (example_header 5 0) (example_header 4 700) = Inr 1
   \<and> compare_tie_header_age (example_header 4 1) (example_header 4 0) = Inr 1
   \<and> compare_tie_header_age (example_header 4 0) (example_header 4 1) = Inr (- 1)
   \<and> compare_tie_header_age (example_header 4 701) (example_header 4 400) = Inr 1
   \<and> compare_tie_header_age (example_header 4 700) (example_header 4 400) = Inr 0
   \<and> compare_tie_header_age (example_header 4 0) (example_header 4 0) = Inr 0"
  using compare_tie_header_age_rules [of "example_header 5 0" "example_header 4 700"]
        compare_tie_header_age_rules [of "example_header 4 1" "example_header 4 0"]
        compare_tie_header_age_rules [of "example_header 4 701" "example_header 4 400"]
        compare_tie_header_age_rules [of "example_header 4 700" "example_header 4 400"]
        compare_tie_header_age_rules [of "example_header 4 0" "example_header 4 0"]
  by (simp add: example_header_def)

text \<open>
  C4 (as stated: antisymmetry, and transitivity of "not older"). Antisymmetry holds. The
  transitivity of the non-strict relation fails inside the 300-second band: with equal
  sequence numbers, lifetimes 100 and 350 have the same age, 350 and 600 have the same
  age, and yet 100 is older than 600.
\<close>

theorem compare_tie_header_age_not_transitive:
  "compare_tie_header_age (example_header 1 100) (example_header 1 350) = Inr 0
   \<and> compare_tie_header_age (example_header 1 350) (example_header 1 600) = Inr 0
   \<and> compare_tie_header_age (example_header 1 100) (example_header 1 600) = Inr (- 1)"
  by (simp add: compare_tie_header_age_def lifetime_diff2ignore_def example_header_def)

text \<open>
  C4 (amended). For headers with the same TIE-ID the comparison is antisymmetric:
  \<open>compare a b = - compare b a\<close>. It is transitive as soon as one of the two
  comparisons is strict: if \<open>a\<close> is not older than \<open>b\<close> and \<open>b\<close> is not older than \<open>c\<close>,
  and at least one of them is strictly newer, then \<open>a\<close> is not older than \<open>c\<close>; if both
  are strictly newer then \<open>a\<close> is strictly newer than \<open>c\<close>. Headers whose sequence numbers
  are equal and whose lifetimes are both non-zero and at most 300 seconds apart have the
  same age, so "same age" itself is not transitive.
\<close>

theorem compare_tie_header_age_antisym_strict_trans:
  assumes "tieid a = tieid b" and "tieid b = tieid c"
  shows "(\<exists>r. compare_tie_header_age a b = Inr r \<and> compare_tie_header_age b a = Inr (- r))
       \<and> (\<forall>r s. compare_tie_header_age a b = Inr r \<and> compare_tie_header_age b c = Inr s \<and>
                 0 \<le> r \<and> 0 \<le> s \<and> (0 < r \<or> 0 < s) \<longrightarrow>
                 (\<exists>t. compare_tie_header_age a c = Inr t \<and> 0 \<le> t \<and> (0 < r \<and> 0 < s \<longrightarrow> 0 < t)))"
proof (intro conjI allI impI)
  show "\<exists>r. compare_tie_header_age a b = Inr r \<and> compare_tie_header_age b a = Inr (- r)"
    using assms(1)
    by (auto simp: compare_tie_header_age_def lifetime_diff2ignore_def Let_def)
next
  fix r s
  assume h: "compare_tie_header_age a b = Inr r \<and> compare_tie_header_age b c = Inr s \<and>
             0 \<le> r \<and> 0 \<le> s \<and> (0 < r \<or> 0 < s)"
  have ac: "tieid a = tieid c" using assms by simp
  show "\<exists>t. compare_tie_header_age a c = Inr t \<and> 0 \<le> t \<and> (0 < r \<and> 0 < s \<longrightarrow> 0 < t)"
    using h assms ac
    unfolding compare_tie_header_age_def lifetime_diff2ignore_def Let_def
    by (simp split: if_splits; linarith)
qed

theorem compare_tie_header_age_antisym_strict_trans_witness:
  "compare_tie_header_age (example_header 1 700) (example_header 1 350) = Inr 1
   \<and> compare_tie_header_age (example_header 1 350) (example_header 1 0) = Inr 1
   \<and> compare_tie_header_age (example_header 1 350) (example_header 1 700) = Inr (- 1)
   \<and> (\<exists>t. compare_tie_header_age (example_header 1 700) (example_header 1 0) = Inr t \<and> 0 < t)"
proof -
  have ab: "compare_tie_header_age (example_header 1 700) (example_header 1 350) = Inr 1"
    by (simp add: compare_tie_header_age_def lifetime_diff2ignore_def example_header_def)
  have bc: "compare_tie_header_age (example_header 1 350) (example_header 1 0) = Inr 1"
    by (simp add: compare_tie_header_age_def lifetime_diff2ignore_def example_header_def)
  have ids: "tieid (example_header 1 700) = tieid (example_header 1 350)"
            "tieid (example_header 1 350) = tieid (example_header 1 0)"
    by (simp_all add: example_header_def)
  note inst = compare_tie_header_age_antisym_strict_trans [OF ids]
  from inst have "\<exists>r. compare_tie_header_age (example_header 1 700) (example_header 1 350) = Inr r
                  \<and> compare_tie_header_age (example_header 1 350) (example_header 1 700) = Inr (- r)"
    by blast
  with ab have ba: "compare_tie_header_age (example_header 1 350) (example_header 1 700) = Inr (- 1)"
    by auto
  from inst ab bc
  have "\<exists>t. compare_tie_header_age (example_header 1 700) (example_header 1 0) = Inr t \<and> 0 \<le> t
            \<and> ((0::int) < 1 \<and> (0::int) < 1 \<longrightarrow> 0 < t)"
    by (elim conjE allE [of _ 1]) simp
  then have "\<exists>t. compare_tie_header_age (example_header 1 700) (example_header 1 0) = Inr t \<and> 0 < t"
    by auto
  with ab bc ba show ?thesis by blast
qed

section \<open>Properties of the TIE database\<close>

text \<open>What a trigger of SPF that returns leaves of the node state.\<close>

lemma trigger_spf_Inr:
  assumes "trigger_spf spf_run_direction n reason = Inr n'"
  shows "ties n' = ties n \<and> spf_triggers_count n' = spf_triggers_count n + 1"
  using assms
  by (auto simp: trigger_spf_def spf_run_def Let_def split: if_splits option.splits)

lemma trigger_spf_view:
  assumes "trigger_spf spf_run_direction n reason = Inr n'"
  shows "system_id n' = system_id n \<and> level_value n' = level_value n"
  using assms
  by (auto simp: trigger_spf_def spf_run_def level_value_def Let_def
           split: if_splits option.splits)

text \<open>With an SPF run that raises nothing, a trigger returns.\<close>

lemma trigger_spf_completes:
  "\<exists>n'. trigger_spf spf_completes n reason = Inr n'"
  by (simp add: trigger_spf_def spf_run_def spf_completes_def Let_def)

lemma remove_tie_present:
  assumes "ties n tie_id = Some t"
    and "remove_tie spf_run_direction n tie_id = Inr n'"
  shows "ties n' = (ties n)(tie_id := None)
       \<and> spf_triggers_count n' = spf_triggers_count n + 1"
proof -
  from assms have "trigger_spf spf_run_direction (n\<lparr>ties := (ties n)(tie_id := None)\<rparr>)
                     (TIE_removed tie_id) = Inr n'"
    by (simp add: remove_tie_def)
  from trigger_spf_Inr [OF this] show ?thesis by simp
qed

text \<open>
  C10. Removing a TIE-ID that is not in the TIE database is a no-op: the call returns
  the node state unchanged, and with it the database and the SPF trigger and run
  counters; no SPF run takes place, whatever a run would do.
\<close>

theorem remove_tie_absent_noop:
  assumes "find_tie n tie_id = None"
  shows "remove_tie spf_run_direction n tie_id = Inr n
       \<and> (\<forall>n'. remove_tie spf_run_direction n tie_id = Inr n' \<longrightarrow>
              ties n' = ties n
            \<and> spf_triggers_count n' = spf_triggers_count n
            \<and> spf_runs_count n' = spf_runs_count n)"
  using assms by (simp add: remove_tie_def find_tie_def)

theorem remove_tie_absent_noop_witness:
  "find_tie example_node (example_tie_id DIR_NORTH 7 PrefixTIEType 1) = None
   \<and> remove_tie spf_completes example_node (example_tie_id DIR_NORTH 7 PrefixTIEType 1)
       = Inr example_node"
proof -
  have h: "find_tie example_node (example_tie_id DIR_NORTH 7 PrefixTIEType 1) = None"
    by (simp add: find_tie_def example_node_def example_tie_id_def example_header_def)
  from remove_tie_absent_noop [OF h, of spf_completes] h show ?thesis by simp
qed

section \<open>Properties of TIRE processing\<close>

lemma process_tire_headers_filter:
  "process_tire_headers n hs acc =
   process_tire_headers n (filter (\<lambda>h. find_tie n (tieid h) \<noteq> None) hs) acc"
proof (induction hs arbitrary: acc)
  case Nil
  show ?case by simp
next
  case (Cons h hs)
  obtain req sn ack where acc: "acc = (req, sn, ack)" by (cases acc) auto
  show ?case
  proof (cases "find_tie n (tieid h)")
    case None
    then show ?thesis using Cons.IH [of acc] acc by simp
  next
    case (Some t)
    then show ?thesis using Cons.IH acc
      by (simp split: sum.splits)
  qed
qed

lemma process_tire_headers_present:
  "process_tire_headers n hs (req, sn, ack) = Inr (req', sn', ack') \<Longrightarrow>
   set req' \<union> set sn' \<union> set ack' \<subseteq>
     set req \<union> set sn \<union> set ack \<union> {x. find_tie n (tieid x) \<noteq> None}"
proof (induction hs arbitrary: req sn ack)
  case Nil
  then show ?case by auto
next
  case (Cons h hs)
  show ?case
  proof (cases "find_tie n (tieid h)")
    case None
    with Cons.prems have "process_tire_headers n hs (req, sn, ack) = Inr (req', sn', ack')"
      by simp
    from Cons.IH [OF this] show ?thesis .
  next
    case (Some t)
    with Cons.prems obtain c where c: "compare_tie_header_age (header t) h = Inr c"
      by (auto split: sum.splits)
    then have same: "tieid (header t) = tieid h"
      by (auto simp: compare_tie_header_age_def split: if_splits)
    have ht: "find_tie n (tieid (header t)) \<noteq> None" using same Some by simp
    have hh: "find_tie n (tieid h) \<noteq> None" using Some by simp
    consider "c < 0" | "c > 0" | "c = 0" by linarith
    then show ?thesis
    proof cases
      case 1
      with Cons.prems Some c
      have "process_tire_headers n hs (req @ [h], sn, ack) = Inr (req', sn', ack')" by simp
      from Cons.IH [OF this] hh show ?thesis by auto
    next
      case 2
      with Cons.prems Some c
      have "process_tire_headers n hs (req, sn @ [header t], ack) = Inr (req', sn', ack')" by simp
      from Cons.IH [OF this] ht show ?thesis by auto
    next
      case 3
      with Cons.prems Some c
      have "process_tire_headers n hs (req, sn, ack @ [header t]) = Inr (req', sn', ack')" by simp
      from Cons.IH [OF this] ht show ?thesis by auto
    qed
  qed
qed

text \<open>
  C8. A header of a received TIRE whose TIE-ID is not in the local TIE database is
  ignored: the result is the one of the TIRE with these headers left out, and none of the
  three result lists (request, start sending, acknowledged) holds an entry with the
  TIE-ID of such a header.
\<close>

theorem tire_absent_headers_ignored:
  "process_received_tire_packet n tire_packet =
     process_received_tire_packet n
       (tire_packet\<lparr>headers := filter (\<lambda>h. find_tie n (tieid h) \<noteq> None) (headers tire_packet)\<rparr>)
   \<and> (\<forall>req sn ack h.
         process_received_tire_packet n tire_packet = Inr (req, sn, ack) \<and>
         h \<in> set (headers tire_packet) \<and> find_tie n (tieid h) = None \<longrightarrow>
         tieid h \<notin> tieid ` (set req \<union> set sn \<union> set ack))"
proof (intro conjI allI impI)
  show "process_received_tire_packet n tire_packet =
     process_received_tire_packet n
       (tire_packet\<lparr>headers := filter (\<lambda>h. find_tie n (tieid h) \<noteq> None) (headers tire_packet)\<rparr>)"
    using process_tire_headers_filter [of n "headers tire_packet" "([], [], [])"]
    by (simp add: process_received_tire_packet_def)
next
  fix req sn ack h
  assume a: "process_received_tire_packet n tire_packet = Inr (req, sn, ack) \<and>
         h \<in> set (headers tire_packet) \<and> find_tie n (tieid h) = None"
  then have "process_tire_headers n (headers tire_packet) ([], [], []) = Inr (req, sn, ack)"
    by (simp add: process_received_tire_packet_def)
  from process_tire_headers_present [OF this]
  have "\<forall>x \<in> set req \<union> set sn \<union> set ack. find_tie n (tieid x) \<noteq> None" by auto
  with a show "tieid h \<notin> tieid ` (set req \<union> set sn \<union> set ack)" by force
qed

theorem tire_absent_headers_ignored_witness:
  "find_tie example_node (tieid (make_tie_header DIR_NORTH 7 PrefixTIEType 1 5 100)) = None
   \<and> process_received_tire_packet example_node
        \<lparr>headers = [make_tie_header DIR_NORTH 7 PrefixTIEType 1 5 100, example_header 4 1000]\<rparr>
       = Inr ([example_header 4 1000], [], [])
   \<and> tieid (make_tie_header DIR_NORTH 7 PrefixTIEType 1 5 100) \<notin> tieid ` set [example_header 4 1000]"
proof -
  let ?hA = "make_tie_header DIR_NORTH 7 PrefixTIEType 1 5 100"
  let ?hP = "example_header 4 1000"
  let ?tire = "\<lparr>headers = [?hA, ?hP]\<rparr>"
  have absent: "find_tie example_node (tieid ?hA) = None"
    by (simp add: find_tie_def example_node_def make_tie_header_def example_header_def)
  have run: "process_received_tire_packet example_node ?tire = Inr ([?hP], [], [])"
    by (simp add: process_received_tire_packet_def find_tie_def example_node_def
        make_tie_header_def example_header_def example_node_tie_def compare_tie_header_age_def)
  have mem: "?hA \<in> set (headers ?tire)" by simp
  from tire_absent_headers_ignored [of example_node ?tire] run absent mem
  have "tieid ?hA \<notin> tieid ` (set [?hP] \<union> set [] \<union> set [])" by blast
  with absent run show ?thesis by simp
qed

section \<open>Properties of TIE processing\<close>

lemma store_tie_absent:
  "ties n (tieid (header t)) = None \<Longrightarrow>
   store_tie spf_run_direction n t =
     trigger_spf spf_run_direction (n\<lparr>ties := (ties n)(tieid (header t) \<mapsto> t)\<rparr>)
       (TIE_added (tieid (header t)))"
  by (simp add: store_tie_def Let_def)

lemma make_according_empty_tie_header:
  "make_according_empty_tie n h = Inr t \<Longrightarrow>
   header t = make_tie_header (direction (tieid h)) (originator (tieid h)) (tietype (tieid h))
                (tie_nr (tieid h)) (seq_nr h + 1) FLUSH_LIFETIME"
  by (auto simp: make_according_empty_tie_def Let_def
           split: tietype.splits sum.splits tie_element.splits)

lemma make_tie_header_tieid:
  "tieid (make_tie_header (direction i) (originator i) (tietype i) (tie_nr i) s l) = i"
  by (simp add: make_tie_header_def)

lemma make_according_empty_tie_simple:
  "tietype (tieid h) \<in> {PrefixTIEType, PositiveDisaggregationPrefixTIEType, KeyValueTIEType} \<Longrightarrow>
   \<exists>t. make_according_empty_tie n h = Inr t \<and> empty_element_of_kind (tietype (tieid h)) (element t)"
  by (auto simp: make_according_empty_tie_def Let_def empty_prefixes_def empty_keyvalues_def)

lemma make_according_empty_tie_node:
  "tietype (tieid h) = NodeTIEType \<Longrightarrow>
   find_tie n ((tieid h)\<lparr>tie_nr := MY_TIE_NR\<rparr>) = Some real \<Longrightarrow>
   element real = ElemNode ne \<Longrightarrow>
   \<exists>t. make_according_empty_tie n h = Inr t \<and> element t = ElemNode (ne\<lparr>ne_neighbors := []\<rparr>)"
  by (simp add: make_according_empty_tie_def find_according_real_node_tie_def Let_def)

lemma make_according_empty_tie_unsupported:
  "tietype (tieid h) \<in> {NegativeDisaggregationPrefixTIEType, PGPrefixTIEType, OtherTIEType}
   \<or> (tietype (tieid h) = NodeTIEType \<and> find_tie n ((tieid h)\<lparr>tie_nr := MY_TIE_NR\<rparr>) = None) \<Longrightarrow>
   make_according_empty_tie n h = Inl AssertionError"
  by (auto simp: make_according_empty_tie_def find_according_real_node_tie_def Let_def)

text \<open>
  The node's part of the flush: with the empty TIE \<open>t\<close> made, the result is the one of
  the SPF trigger on the database with \<open>t\<close> stored.
\<close>

lemma process_received_tie_packet_flush:
  assumes absent: "find_tie n (tieid (header rx_tie)) = None"
    and own: "originator (tieid (header rx_tie)) = system_id n"
    and mk: "make_according_empty_tie n (header rx_tie) = Inr t"
  shows "process_received_tie_packet spf_run_direction n rx_tie =
           (case trigger_spf spf_run_direction
                   (n\<lparr>ties := (ties n)(tieid (header rx_tie) \<mapsto> t)\<rparr>)
                   (TIE_added (tieid (header rx_tie))) of
              Inl e \<Rightarrow> Inl e
            | Inr n' \<Rightarrow> Inr (n', Some (header t), None))
         \<and> tieid (header t) = tieid (header rx_tie)
         \<and> seq_nr (header t) = seq_nr (header rx_tie) + 1
         \<and> remaining_lifetime (header t) = 60"
proof -
  have hd: "header t = make_tie_header (direction (tieid (header rx_tie)))
              (originator (tieid (header rx_tie))) (tietype (tieid (header rx_tie)))
              (tie_nr (tieid (header rx_tie))) (seq_nr (header rx_tie) + 1) FLUSH_LIFETIME"
    using make_according_empty_tie_header [OF mk] .
  have id: "tieid (header t) = tieid (header rx_tie)"
    unfolding hd by (rule make_tie_header_tieid)
  have sq: "seq_nr (header t) = seq_nr (header rx_tie) + 1"
    unfolding hd by (simp add: make_tie_header_def)
  have lt: "remaining_lifetime (header t) = 60"
    unfolding hd by (simp add: make_tie_header_def FLUSH_LIFETIME_def)
  have "ties n (tieid (header t)) = None" using absent id by (simp add: find_tie_def)
  from store_tie_absent [OF this, of spf_run_direction]
  have st: "store_tie spf_run_direction n t =
              trigger_spf spf_run_direction (n\<lparr>ties := (ties n)(tieid (header rx_tie) \<mapsto> t)\<rparr>)
                (TIE_added (tieid (header rx_tie)))"
    using id by simp
  have "process_received_tie_packet spf_run_direction n rx_tie =
           (case trigger_spf spf_run_direction
                   (n\<lparr>ties := (ties n)(tieid (header rx_tie) \<mapsto> t)\<rparr>)
                   (TIE_added (tieid (header rx_tie))) of
              Inl e \<Rightarrow> Inl e
            | Inr n' \<Rightarrow> Inr (n', Some (header t), None))"
    using absent own mk st
    by (simp add: process_received_tie_packet_def bump_own_tie_def Let_def split: sum.splits)
  with id sq lt show ?thesis by simp
qed

lemma process_received_tie_packet_unsupported:
  assumes absent: "find_tie n (tieid (header rx_tie)) = None"
    and own: "originator (tieid (header rx_tie)) = system_id n"
    and mk: "make_according_empty_tie n (header rx_tie) = Inl e"
  shows "process_received_tie_packet spf_run_direction n rx_tie = Inl e
       \<and> interface_process_received_tie_packet spf_run_direction n intf rx_tie = Inl e"
  using assms
  by (simp add: interface_process_received_tie_packet_def process_received_tie_packet_def
      bump_own_tie_def Let_def)

text \<open>The transmit path: what the scope filter forbids is not queued.\<close>

lemma try_to_transmit_tie_filtered:
  "is_flood_filtered n intf h = Inr (True, r) \<Longrightarrow> try_to_transmit_tie n intf h = Inr intf"
  by (simp add: try_to_transmit_tie_def)

lemma map_of_od_set: "map_of (od_set k v d) k = Some v"
proof (cases "map_of d k")
  case None
  then show ?thesis by (simp add: od_set_def map_add_def)
next
  case (Some w)
  have "map_of (map (\<lambda>(k', v'). if k' = k then (k', v) else (k', v')) d) k = Some v"
    using Some by (induction d) (auto split: if_splits)
  with Some show ?thesis by (simp add: od_set_def)
qed

lemma add_to_ties_tx_queued:
  assumes "flood_send_handler intf"
  shows "\<exists>intf'. add_to_ties_tx n intf h = Inr intf' \<and> map_of (ties_tx intf') (tieid h) = Some h"
  using assms
  by (auto simp: add_to_ties_tx_def send_tie_protocol_packet_def Let_def map_of_od_set
           split: option.splits)

text \<open>
  What the scope filter allows is put on the TX queue, unless an acknowledgement of the
  same or a higher sequence number is queued for the TIE-ID.
\<close>

lemma try_to_transmit_tie_allowed:
  assumes "is_flood_filtered n intf h = Inr (False, r)"
    and "flood_send_handler intf"
    and "\<forall>a. map_of (ties_ack intf) (tieid h) = Some a \<longrightarrow> seq_nr a < seq_nr h"
  shows "\<exists>intf'. try_to_transmit_tie n intf h = Inr intf'
           \<and> map_of (ties_tx intf') (tieid h) = Some h"
proof -
  let ?i1 = "remove_from_ties_rtx intf h"
  have ack: "ties_ack ?i1 = ties_ack intf" and hnd: "flood_send_handler ?i1"
    using assms(2) by (simp_all add: remove_from_ties_rtx_def)
  show ?thesis
  proof (cases "map_of (ties_ack intf) (tieid h)")
    case None
    with assms(1) ack add_to_ties_tx_queued [OF hnd, of n h] show ?thesis
      by (simp add: try_to_transmit_tie_def Let_def)
  next
    case (Some a)
    with assms(3) have lt: "seq_nr a < seq_nr h" by simp
    have "flood_send_handler (remove_from_ties_ack ?i1 a)"
      using hnd by (simp add: remove_from_ties_ack_def)
    from add_to_ties_tx_queued [OF this, of n h] Some lt assms(1) ack show ?thesis
      by (simp add: try_to_transmit_tie_def Let_def)
  qed
qed

lemma interface_process_received_tie_packet_start:
  "process_received_tie_packet spf_run_direction n rx_tie = Inr (n', Some h, None) \<Longrightarrow>
   interface_process_received_tie_packet spf_run_direction n intf rx_tie =
     (case try_to_transmit_tie n' intf h of Inl e \<Rightarrow> Inl e | Inr intf' \<Rightarrow> Inr (n', intf'))"
  by (simp add: interface_process_received_tie_packet_def split: sum.splits)

text \<open>
  C6 (as stated: for every TIE type, and the TIE is scheduled for sending). On node 1,
  which holds only its South Node TIE: a received NegativeDisaggregation or PolicyGuided
  TIE of its own stops at an assertion, and so does a received North Node TIE of its own,
  as the own North Node TIE number 1 is not stored. A received North Prefix TIE of its
  own is flushed into the database, but on an interface whose neighbor is to the south
  the scope filter forbids flooding a North TIE, and the TX queue stays empty.
\<close>

theorem flush_not_for_every_type_nor_neighbor:
  "process_received_tie_packet spf_completes example_node
     \<lparr>header = make_tie_header DIR_SOUTH 1 NegativeDisaggregationPrefixTIEType 5 7 1000,
      element = ElemPrefixes \<lparr>prefixes = []\<rparr>\<rparr> = Inl AssertionError
   \<and> process_received_tie_packet spf_completes example_node
     \<lparr>header = make_tie_header DIR_SOUTH 1 PGPrefixTIEType 5 7 1000,
      element = ElemPrefixes \<lparr>prefixes = []\<rparr>\<rparr> = Inl AssertionError
   \<and> process_received_tie_packet spf_completes example_node
     \<lparr>header = make_tie_header DIR_NORTH 1 NodeTIEType 2 7 1000,
      element = ElemNode \<lparr>ne_name = ''x'', ne_level = Some 5, ne_neighbors = []\<rparr>\<rparr>
       = Inl AssertionError
   \<and> interface_process_received_tie_packet spf_completes example_node
       (example_interface THREE_WAY (Some (example_neighbor 2 0)))
       \<lparr>header = make_tie_header DIR_NORTH 1 PrefixTIEType 2 7 1000,
        element = ElemPrefixes \<lparr>prefixes = [(''10.0.0.0/8'', 1, {})]\<rparr>\<rparr>
     = Inr (example_node
              \<lparr>ties := (ties example_node)
                 (example_tie_id DIR_NORTH 1 PrefixTIEType 2 \<mapsto>
                    \<lparr>header = make_tie_header DIR_NORTH 1 PrefixTIEType 2 8 60,
                     element = ElemPrefixes \<lparr>prefixes = []\<rparr>\<rparr>),
               defer_spf_timer := True, spf_triggers_count := 1, spf_runs_count := 1,
               spf_trigger_history := [TIE_added (example_tie_id DIR_NORTH 1 PrefixTIEType 2)]\<rparr>,
            example_interface THREE_WAY (Some (example_neighbor 2 0)))
   \<and> ties_tx (example_interface THREE_WAY (Some (example_neighbor 2 0))) = []"
proof (intro conjI)
  show "process_received_tie_packet spf_completes example_node
     \<lparr>header = make_tie_header DIR_SOUTH 1 NegativeDisaggregationPrefixTIEType 5 7 1000,
      element = ElemPrefixes \<lparr>prefixes = []\<rparr>\<rparr> = Inl AssertionError"
    by (simp add: process_received_tie_packet_def bump_own_tie_def make_according_empty_tie_def
        find_tie_def example_node_def make_tie_header_def example_header_def Let_def)
  show "process_received_tie_packet spf_completes example_node
     \<lparr>header = make_tie_header DIR_SOUTH 1 PGPrefixTIEType 5 7 1000,
      element = ElemPrefixes \<lparr>prefixes = []\<rparr>\<rparr> = Inl AssertionError"
    by (simp add: process_received_tie_packet_def bump_own_tie_def make_according_empty_tie_def
        find_tie_def example_node_def make_tie_header_def example_header_def Let_def)
  show "process_received_tie_packet spf_completes example_node
     \<lparr>header = make_tie_header DIR_NORTH 1 NodeTIEType 2 7 1000,
      element = ElemNode \<lparr>ne_name = ''x'', ne_level = Some 5, ne_neighbors = []\<rparr>\<rparr>
       = Inl AssertionError"
    by (simp add: process_received_tie_packet_def bump_own_tie_def make_according_empty_tie_def
        find_according_real_node_tie_def MY_TIE_NR_def
        find_tie_def example_node_def make_tie_header_def example_header_def Let_def)
  show "interface_process_received_tie_packet spf_completes example_node
       (example_interface THREE_WAY (Some (example_neighbor 2 0)))
       \<lparr>header = make_tie_header DIR_NORTH 1 PrefixTIEType 2 7 1000,
        element = ElemPrefixes \<lparr>prefixes = [(''10.0.0.0/8'', 1, {})]\<rparr>\<rparr>
     = Inr (example_node
              \<lparr>ties := (ties example_node)
                 (example_tie_id DIR_NORTH 1 PrefixTIEType 2 \<mapsto>
                    \<lparr>header = make_tie_header DIR_NORTH 1 PrefixTIEType 2 8 60,
                     element = ElemPrefixes \<lparr>prefixes = []\<rparr>\<rparr>),
               defer_spf_timer := True, spf_triggers_count := 1, spf_runs_count := 1,
               spf_trigger_history := [TIE_added (example_tie_id DIR_NORTH 1 PrefixTIEType 2)]\<rparr>,
            example_interface THREE_WAY (Some (example_neighbor 2 0)))"
    by (simp add: interface_process_received_tie_packet_def process_received_tie_packet_def
        bump_own_tie_def make_according_empty_tie_def store_tie_def trigger_spf_def spf_run_def
        spf_completes_def try_to_transmit_tie_def is_flood_filtered_def neighbor_direction_def
        is_flood_allowed_def level_value_def top_of_fabric_def top_of_fabric_level_def
        find_tie_def example_node_def make_tie_header_def example_header_def example_tie_id_def
        example_interface_def example_neighbor_def empty_prefixes_def FLUSH_LIFETIME_def
        SPF_TRIGGER_HISTORY_LENGTH_def Let_def)
  show "ties_tx (example_interface THREE_WAY (Some (example_neighbor 2 0))) = []"
    by (simp add: example_interface_def)
qed

text \<open>
  C6 (amended). A received TIE names this node as originator and is not in the local
  database. If its type is Prefix, PositiveDisaggregation or KeyValue, or Node while the
  node's own Node TIE number 1 of that direction is in the database, the node makes an
  empty TIE \<open>t\<close> of the same TIE-ID and kind (no prefixes, no key-values; for a Node TIE
  the element of the own Node TIE without its neighbors), with sequence number one above
  the received one and remaining lifetime 60, stores it and triggers SPF. An exception
  of the SPF run ends the processing with that exception. Otherwise the node returns the
  header of \<open>t\<close> as the header to start sending and the interface passes it to its
  transmit path: the TIE is scheduled for sending (its header is on the TX queue) when
  the scope filter allows flooding it to the neighbor of the interface and every
  acknowledgement queued for the TIE-ID has a lower sequence number; when the scope
  filter forbids it, the interface is left as it was. If the type is
  NegativeDisaggregation or PolicyGuided (or no type of the specification), or Node
  while the own Node TIE number 1 is absent, the processing stops with an assertion
  error.
\<close>

theorem flush_unknown_own_tie:
  assumes absent: "find_tie n (tieid (header rx_tie)) = None"
    and own: "originator (tieid (header rx_tie)) = system_id n"
  shows "(tietype (tieid (header rx_tie)) \<in>
            {PrefixTIEType, PositiveDisaggregationPrefixTIEType, KeyValueTIEType}
          \<or> (tietype (tieid (header rx_tie)) = NodeTIEType \<and>
              find_tie n ((tieid (header rx_tie))\<lparr>tie_nr := MY_TIE_NR\<rparr>) = Some real \<and>
              element real = ElemNode ne) \<longrightarrow>
          (\<exists>t. tieid (header t) = tieid (header rx_tie)
             \<and> seq_nr (header t) = seq_nr (header rx_tie) + 1
             \<and> remaining_lifetime (header t) = 60
             \<and> empty_element_of_kind (tietype (tieid (header rx_tie))) (element t)
             \<and> (tietype (tieid (header rx_tie)) = NodeTIEType \<longrightarrow>
                  element t = ElemNode (ne\<lparr>ne_neighbors := []\<rparr>))
             \<and> (\<forall>e. trigger_spf spf_run_direction
                        (n\<lparr>ties := (ties n)(tieid (header rx_tie) \<mapsto> t)\<rparr>)
                        (TIE_added (tieid (header rx_tie))) = Inl e \<longrightarrow>
                    process_received_tie_packet spf_run_direction n rx_tie = Inl e
                  \<and> interface_process_received_tie_packet spf_run_direction n intf rx_tie
                      = Inl e)
             \<and> (\<forall>n'. trigger_spf spf_run_direction
                         (n\<lparr>ties := (ties n)(tieid (header rx_tie) \<mapsto> t)\<rparr>)
                         (TIE_added (tieid (header rx_tie))) = Inr n' \<longrightarrow>
                    ties n' = (ties n)(tieid (header rx_tie) \<mapsto> t)
                  \<and> spf_triggers_count n' = spf_triggers_count n + 1
                  \<and> process_received_tie_packet spf_run_direction n rx_tie
                      = Inr (n', Some (header t), None)
                  \<and> (\<forall>r. is_flood_filtered n' intf (header t) = Inr (True, r) \<longrightarrow>
                        interface_process_received_tie_packet spf_run_direction n intf rx_tie
                          = Inr (n', intf))
                  \<and> (\<forall>r. is_flood_filtered n' intf (header t) = Inr (False, r) \<and>
                          flood_send_handler intf \<and>
                          (\<forall>a. map_of (ties_ack intf) (tieid (header rx_tie)) = Some a \<longrightarrow>
                               seq_nr a < seq_nr (header t)) \<longrightarrow>
                        (\<exists>intf'. interface_process_received_tie_packet spf_run_direction
                                    n intf rx_tie = Inr (n', intf')
                           \<and> map_of (ties_tx intf') (tieid (header rx_tie))
                               = Some (header t))))))
       \<and> (tietype (tieid (header rx_tie)) \<in>
            {NegativeDisaggregationPrefixTIEType, PGPrefixTIEType, OtherTIEType}
          \<or> (tietype (tieid (header rx_tie)) = NodeTIEType \<and>
              find_tie n ((tieid (header rx_tie))\<lparr>tie_nr := MY_TIE_NR\<rparr>) = None) \<longrightarrow>
            process_received_tie_packet spf_run_direction n rx_tie = Inl AssertionError
          \<and> interface_process_received_tie_packet spf_run_direction n intf rx_tie
              = Inl AssertionError)"
proof (intro conjI impI)
  assume kind: "tietype (tieid (header rx_tie)) \<in>
            {PrefixTIEType, PositiveDisaggregationPrefixTIEType, KeyValueTIEType}
          \<or> (tietype (tieid (header rx_tie)) = NodeTIEType \<and>
              find_tie n ((tieid (header rx_tie))\<lparr>tie_nr := MY_TIE_NR\<rparr>) = Some real \<and>
              element real = ElemNode ne)"
  let ?tid = "tieid (header rx_tie)"
  from kind obtain t where mk: "make_according_empty_tie n (header rx_tie) = Inr t"
    and el: "empty_element_of_kind (tietype ?tid) (element t)"
    and nd: "tietype ?tid = NodeTIEType \<longrightarrow> element t = ElemNode (ne\<lparr>ne_neighbors := []\<rparr>)"
  proof
    assume k: "tietype ?tid \<in>
                 {PrefixTIEType, PositiveDisaggregationPrefixTIEType, KeyValueTIEType}"
    from make_according_empty_tie_simple [OF k, of n] obtain t where
      "make_according_empty_tie n (header rx_tie) = Inr t"
      "empty_element_of_kind (tietype ?tid) (element t)" by blast
    moreover have "tietype ?tid \<noteq> NodeTIEType" using k by auto
    ultimately show ?thesis using that by blast
  next
    assume k: "tietype ?tid = NodeTIEType \<and>
                 find_tie n (?tid\<lparr>tie_nr := MY_TIE_NR\<rparr>) = Some real \<and>
                 element real = ElemNode ne"
    then obtain t where t: "make_according_empty_tie n (header rx_tie) = Inr t"
      "element t = ElemNode (ne\<lparr>ne_neighbors := []\<rparr>)"
      using make_according_empty_tie_node [of "header rx_tie" n real ne] by blast
    then have "empty_element_of_kind (tietype ?tid) (element t)"
      using k by simp
    with t show ?thesis using that by blast
  qed
  let ?stored = "\<lambda>u. n\<lparr>ties := (ties n)(?tid \<mapsto> u)\<rparr>"
  note flush = process_received_tie_packet_flush [OF absent own mk, of spf_run_direction]
  from flush have node_res: "process_received_tie_packet spf_run_direction n rx_tie =
           (case trigger_spf spf_run_direction (?stored t) (TIE_added ?tid) of
              Inl e \<Rightarrow> Inl e
            | Inr n' \<Rightarrow> Inr (n', Some (header t), None))"
    and hdr: "tieid (header t) = ?tid" "seq_nr (header t) = seq_nr (header rx_tie) + 1"
       "remaining_lifetime (header t) = 60" by simp_all
  have raised: "\<forall>e. trigger_spf spf_run_direction (?stored t) (TIE_added ?tid) = Inl e \<longrightarrow>
                    process_received_tie_packet spf_run_direction n rx_tie = Inl e
                  \<and> interface_process_received_tie_packet spf_run_direction n intf rx_tie
                      = Inl e"
    using node_res by (simp add: interface_process_received_tie_packet_def)
  have returned: "\<forall>n'. trigger_spf spf_run_direction (?stored t) (TIE_added ?tid) = Inr n' \<longrightarrow>
                    ties n' = (ties n)(?tid \<mapsto> t)
                  \<and> spf_triggers_count n' = spf_triggers_count n + 1
                  \<and> process_received_tie_packet spf_run_direction n rx_tie
                      = Inr (n', Some (header t), None)
                  \<and> (\<forall>r. is_flood_filtered n' intf (header t) = Inr (True, r) \<longrightarrow>
                        interface_process_received_tie_packet spf_run_direction n intf rx_tie
                          = Inr (n', intf))
                  \<and> (\<forall>r. is_flood_filtered n' intf (header t) = Inr (False, r) \<and>
                          flood_send_handler intf \<and>
                          (\<forall>a. map_of (ties_ack intf) ?tid = Some a \<longrightarrow>
                               seq_nr a < seq_nr (header t)) \<longrightarrow>
                        (\<exists>intf'. interface_process_received_tie_packet spf_run_direction
                                    n intf rx_tie = Inr (n', intf')
                           \<and> map_of (ties_tx intf') ?tid = Some (header t)))"
  proof (intro allI impI)
    fix n'
    assume tr: "trigger_spf spf_run_direction (?stored t) (TIE_added ?tid) = Inr n'"
    from trigger_spf_Inr [OF tr]
    have st: "ties n' = (ties n)(?tid \<mapsto> t)"
      and cnt: "spf_triggers_count n' = spf_triggers_count n + 1" by simp_all
    from node_res tr
    have nr: "process_received_tie_packet spf_run_direction n rx_tie
                = Inr (n', Some (header t), None)" by simp
    note ir = interface_process_received_tie_packet_start [OF nr, of intf]
    have filt: "\<forall>r. is_flood_filtered n' intf (header t) = Inr (True, r) \<longrightarrow>
                  interface_process_received_tie_packet spf_run_direction n intf rx_tie
                    = Inr (n', intf)"
      using ir try_to_transmit_tie_filtered [of n' intf "header t"] by simp
    have allow: "\<forall>r. is_flood_filtered n' intf (header t) = Inr (False, r) \<and>
                    flood_send_handler intf \<and>
                    (\<forall>a. map_of (ties_ack intf) ?tid = Some a \<longrightarrow>
                         seq_nr a < seq_nr (header t)) \<longrightarrow>
                  (\<exists>intf'. interface_process_received_tie_packet spf_run_direction
                              n intf rx_tie = Inr (n', intf')
                     \<and> map_of (ties_tx intf') ?tid = Some (header t))"
    proof (intro allI impI)
      fix r
      assume a: "is_flood_filtered n' intf (header t) = Inr (False, r) \<and>
                 flood_send_handler intf \<and>
                 (\<forall>a. map_of (ties_ack intf) ?tid = Some a \<longrightarrow> seq_nr a < seq_nr (header t))"
      then have "\<exists>intf'. try_to_transmit_tie n' intf (header t) = Inr intf'
                   \<and> map_of (ties_tx intf') (tieid (header t)) = Some (header t)"
        using try_to_transmit_tie_allowed [of n' intf "header t" r] hdr(1) by simp
      then show "\<exists>intf'. interface_process_received_tie_packet spf_run_direction
                              n intf rx_tie = Inr (n', intf')
                     \<and> map_of (ties_tx intf') ?tid = Some (header t)"
        using ir hdr(1) by auto
    qed
    from st cnt nr filt allow
    show "ties n' = (ties n)(?tid \<mapsto> t)
        \<and> spf_triggers_count n' = spf_triggers_count n + 1
        \<and> process_received_tie_packet spf_run_direction n rx_tie
            = Inr (n', Some (header t), None)
        \<and> (\<forall>r. is_flood_filtered n' intf (header t) = Inr (True, r) \<longrightarrow>
              interface_process_received_tie_packet spf_run_direction n intf rx_tie
                = Inr (n', intf))
        \<and> (\<forall>r. is_flood_filtered n' intf (header t) = Inr (False, r) \<and>
                flood_send_handler intf \<and>
                (\<forall>a. map_of (ties_ack intf) ?tid = Some a \<longrightarrow>
                     seq_nr a < seq_nr (header t)) \<longrightarrow>
              (\<exists>intf'. interface_process_received_tie_packet spf_run_direction
                          n intf rx_tie = Inr (n', intf')
                 \<and> map_of (ties_tx intf') ?tid = Some (header t)))"
      by blast
  qed
  from hdr el nd raised returned
  show "\<exists>t. tieid (header t) = ?tid
             \<and> seq_nr (header t) = seq_nr (header rx_tie) + 1
             \<and> remaining_lifetime (header t) = 60
             \<and> empty_element_of_kind (tietype ?tid) (element t)
             \<and> (tietype ?tid = NodeTIEType \<longrightarrow>
                  element t = ElemNode (ne\<lparr>ne_neighbors := []\<rparr>))
             \<and> (\<forall>e. trigger_spf spf_run_direction (?stored t) (TIE_added ?tid) = Inl e \<longrightarrow>
                    process_received_tie_packet spf_run_direction n rx_tie = Inl e
                  \<and> interface_process_received_tie_packet spf_run_direction n intf rx_tie
                      = Inl e)
             \<and> (\<forall>n'. trigger_spf spf_run_direction (?stored t) (TIE_added ?tid) = Inr n' \<longrightarrow>
                    ties n' = (ties n)(?tid \<mapsto> t)
                  \<and> spf_triggers_count n' = spf_triggers_count n + 1
                  \<and> process_received_tie_packet spf_run_direction n rx_tie
                      = Inr (n', Some (header t), None)
                  \<and> (\<forall>r. is_flood_filtered n' intf (header t) = Inr (True, r) \<longrightarrow>
                        interface_process_received_tie_packet spf_run_direction n intf rx_tie
                          = Inr (n', intf))
                  \<and> (\<forall>r. is_flood_filtered n' intf (header t) = Inr (False, r) \<and>
                          flood_send_handler intf \<and>
                          (\<forall>a. map_of (ties_ack intf) ?tid = Some a \<longrightarrow>
                               seq_nr a < seq_nr (header t)) \<longrightarrow>
                        (\<exists>intf'. interface_process_received_tie_packet spf_run_direction
                                    n intf rx_tie = Inr (n', intf')
                           \<and> map_of (ties_tx intf') ?tid = Some (header t))))"
    by (intro exI [of _ t]) blast
next
  assume un: "tietype (tieid (header rx_tie)) \<in>
            {NegativeDisaggregationPrefixTIEType, PGPrefixTIEType, OtherTIEType}
          \<or> (tietype (tieid (header rx_tie)) = NodeTIEType \<and>
              find_tie n ((tieid (header rx_tie))\<lparr>tie_nr := MY_TIE_NR\<rparr>) = None)"
  from make_according_empty_tie_unsupported [OF un]
  have mk: "make_according_empty_tie n (header rx_tie) = Inl AssertionError" .
  from process_received_tie_packet_unsupported [OF absent own mk, of spf_run_direction intf]
  show "process_received_tie_packet spf_run_direction n rx_tie = Inl AssertionError"
    and "interface_process_received_tie_packet spf_run_direction n intf rx_tie
              = Inl AssertionError" by simp_all
qed

theorem flush_unknown_own_tie_witness:
  "(\<exists>n' intf' t. interface_process_received_tie_packet spf_completes example_node
        (example_interface THREE_WAY (Some (example_neighbor 5 2)))
        \<lparr>header = make_tie_header DIR_NORTH 1 PrefixTIEType 2 7 1000,
         element = ElemPrefixes \<lparr>prefixes = [(''10.0.0.0/8'', 1, {})]\<rparr>\<rparr> = Inr (n', intf')
      \<and> ties n' (example_tie_id DIR_NORTH 1 PrefixTIEType 2) = Some t
      \<and> seq_nr (header t) = 8 \<and> remaining_lifetime (header t) = 60
      \<and> element t = ElemPrefixes \<lparr>prefixes = []\<rparr>
      \<and> map_of (ties_tx intf') (example_tie_id DIR_NORTH 1 PrefixTIEType 2) = Some (header t))
   \<and> interface_process_received_tie_packet spf_completes example_node
        (example_interface THREE_WAY (Some (example_neighbor 5 2)))
        \<lparr>header = make_tie_header DIR_NORTH 1 PGPrefixTIEType 2 7 1000,
         element = ElemPrefixes \<lparr>prefixes = []\<rparr>\<rparr> = Inl AssertionError"
proof -
  let ?rx = "\<lparr>header = make_tie_header DIR_NORTH 1 PrefixTIEType 2 7 1000,
         element = ElemPrefixes \<lparr>prefixes = [(''10.0.0.0/8'', 1, {})]\<rparr>\<rparr>"
  let ?pg = "\<lparr>header = make_tie_header DIR_NORTH 1 PGPrefixTIEType 2 7 1000,
         element = ElemPrefixes \<lparr>prefixes = []\<rparr>\<rparr>"
  let ?I = "example_interface THREE_WAY (Some (example_neighbor 5 2))"
  let ?tid = "example_tie_id DIR_NORTH 1 PrefixTIEType 2"
  let ?ne = "\<lparr>ne_name = ''node1'', ne_level = Some 1, ne_neighbors = []\<rparr>"
  have tid: "tieid (header ?rx) = ?tid"
    by (simp add: make_tie_header_def example_tie_id_def)
  have a1: "find_tie example_node (tieid (header ?rx)) = None"
    by (simp add: find_tie_def example_node_def make_tie_header_def example_header_def)
  have o1: "originator (tieid (header ?rx)) = system_id example_node"
    by (simp add: example_node_def make_tie_header_def)
  have k1: "tietype (tieid (header ?rx)) \<in>
              {PrefixTIEType, PositiveDisaggregationPrefixTIEType, KeyValueTIEType}
            \<or> (tietype (tieid (header ?rx)) = NodeTIEType \<and>
                find_tie example_node ((tieid (header ?rx))\<lparr>tie_nr := MY_TIE_NR\<rparr>)
                  = Some example_node_tie \<and>
                element example_node_tie = ElemNode ?ne)"
    by (simp add: make_tie_header_def)
  have a2: "find_tie example_node (tieid (header ?pg)) = None"
    by (simp add: find_tie_def example_node_def make_tie_header_def example_header_def)
  have o2: "originator (tieid (header ?pg)) = system_id example_node"
    by (simp add: example_node_def make_tie_header_def)
  have k2: "tietype (tieid (header ?pg)) \<in>
              {NegativeDisaggregationPrefixTIEType, PGPrefixTIEType, OtherTIEType}
            \<or> (tietype (tieid (header ?pg)) = NodeTIEType \<and>
                find_tie example_node ((tieid (header ?pg))\<lparr>tie_nr := MY_TIE_NR\<rparr>) = None)"
    by (simp add: make_tie_header_def)
  from flush_unknown_own_tie [OF a2 o2, of example_node_tie ?ne spf_completes ?I] k2
  have pg: "interface_process_received_tie_packet spf_completes example_node ?I ?pg
              = Inl AssertionError"
    by blast
  from flush_unknown_own_tie [OF a1 o1, of example_node_tie ?ne spf_completes ?I] k1
  obtain t where hid: "tieid (header t) = tieid (header ?rx)"
    and hsq: "seq_nr (header t) = seq_nr (header ?rx) + 1"
    and hlt: "remaining_lifetime (header t) = 60"
    and hel: "empty_element_of_kind (tietype (tieid (header ?rx))) (element t)"
    and ret: "\<forall>n'. trigger_spf spf_completes
                 (example_node\<lparr>ties := (ties example_node)(tieid (header ?rx) \<mapsto> t)\<rparr>)
                 (TIE_added (tieid (header ?rx))) = Inr n' \<longrightarrow>
               ties n' = (ties example_node)(tieid (header ?rx) \<mapsto> t)
             \<and> spf_triggers_count n' = spf_triggers_count example_node + 1
             \<and> process_received_tie_packet spf_completes example_node ?rx
                 = Inr (n', Some (header t), None)
             \<and> (\<forall>r. is_flood_filtered n' ?I (header t) = Inr (True, r) \<longrightarrow>
                   interface_process_received_tie_packet spf_completes example_node ?I ?rx
                     = Inr (n', ?I))
             \<and> (\<forall>r. is_flood_filtered n' ?I (header t) = Inr (False, r) \<and>
                     flood_send_handler ?I \<and>
                     (\<forall>a. map_of (ties_ack ?I) (tieid (header ?rx)) = Some a \<longrightarrow>
                          seq_nr a < seq_nr (header t)) \<longrightarrow>
                   (\<exists>intf'. interface_process_received_tie_packet spf_completes
                               example_node ?I ?rx = Inr (n', intf')
                      \<and> map_of (ties_tx intf') (tieid (header ?rx)) = Some (header t)))"
    by blast
  let ?stored = "example_node\<lparr>ties := (ties example_node)(tieid (header ?rx) \<mapsto> t)\<rparr>"
  from trigger_spf_completes [of ?stored "TIE_added (tieid (header ?rx))"]
  obtain n' where tr: "trigger_spf spf_completes ?stored (TIE_added (tieid (header ?rx))) = Inr n'"
    by blast
  from trigger_spf_view [OF tr]
  have view: "system_id n' = 1" "level_value n' = Some 1"
    by (simp_all add: level_value_def example_node_def)
  have dir: "direction (tieid (header t)) = DIR_NORTH"
    using hid by (simp add: make_tie_header_def)
  have filt: "is_flood_filtered n' ?I (header t) = Inr (False, ''N-TIE to N: always flood'')"
    using view dir
    by (simp add: is_flood_filtered_def neighbor_direction_def is_flood_allowed_def
        example_interface_def example_neighbor_def)
  have hnd: "flood_send_handler ?I" by (simp add: example_interface_def)
  have ack: "\<forall>a. map_of (ties_ack ?I) (tieid (header ?rx)) = Some a \<longrightarrow>
               seq_nr a < seq_nr (header t)"
    by (simp add: example_interface_def)
  from ret tr have st: "ties n' = (ties example_node)(tieid (header ?rx) \<mapsto> t)" by blast
  from ret tr filt hnd ack
  obtain intf' where res: "interface_process_received_tie_packet spf_completes
                              example_node ?I ?rx = Inr (n', intf')"
    and q: "map_of (ties_tx intf') (tieid (header ?rx)) = Some (header t)"
    by blast
  have el: "element t = ElemPrefixes \<lparr>prefixes = []\<rparr>"
    using hel by (cases "element t") (simp_all add: make_tie_header_def)
  have sq: "seq_nr (header t) = 8" using hsq by (simp add: make_tie_header_def)
  have "ties n' ?tid = Some t" using st tid by simp
  with res q el sq hlt tid pg show ?thesis by auto
qed

section \<open>Properties of the flooding scope\<close>

text \<open>
  C9. When the direction of the destination neighbor is unknown (\<open>None\<close>), the
  flood-scope decision is "not allowed", for South TIEs and for North TIEs alike; and
  the direction is unknown when the interface has no neighbor.
\<close>

theorem flood_never_to_unknown_direction:
  assumes "direction (tieid tie_header) = DIR_SOUTH \<or> direction (tieid tie_header) = DIR_NORTH"
  shows "(\<exists>reason. is_flood_allowed n tie_header None to_node_system_id from_node_system_id
                     from_node_level from_node_is_top_of_fabric = Inr (False, reason))
       \<and> (neighbor intf = None \<longrightarrow> neighbor_direction n intf = Inr None)"
  using assms by (auto simp: is_flood_allowed_def neighbor_direction_def)

theorem flood_never_to_unknown_direction_witness:
  "(\<exists>reason. is_flood_allowed example_node (example_header 3 1000) None 2 1 (Some 1) False
       = Inr (False, reason))
   \<and> (\<exists>reason. is_flood_allowed example_node (make_tie_header DIR_NORTH 1 PrefixTIEType 1 1 100)
                  None 2 1 (Some 1) False = Inr (False, reason))
   \<and> neighbor_direction example_node (example_interface ONE_WAY None) = Inr None"
proof -
  have d1: "direction (tieid (example_header 3 1000)) = DIR_SOUTH
            \<or> direction (tieid (example_header 3 1000)) = DIR_NORTH"
    by (simp add: example_header_def)
  have d2: "direction (tieid (make_tie_header DIR_NORTH 1 PrefixTIEType 1 1 100)) = DIR_SOUTH
            \<or> direction (tieid (make_tie_header DIR_NORTH 1 PrefixTIEType 1 1 100)) = DIR_NORTH"
    by (simp add: make_tie_header_def)
  have nn: "neighbor (example_interface ONE_WAY None) = None"
    by (simp add: example_interface_def)
  from flood_never_to_unknown_direction [OF d1, of example_node 2 1 "Some 1" False
         "example_interface ONE_WAY None"]
       flood_never_to_unknown_direction [OF d2, of example_node 2 1 "Some 1" False
         "example_interface ONE_WAY None"] nn
  show ?thesis by blast
qed

text \<open>
  On an interface without neighbor the transmit filter of the interface does not reach
  the decision: reading the system id of the missing neighbor raises.
\<close>

lemma is_flood_filtered_without_neighbor:
  "neighbor intf = None \<Longrightarrow> is_flood_filtered n intf tie_header = Inl AttributeError"
  by (simp add: is_flood_filtered_def neighbor_direction_def)

text \<open>
  The flood decision depends on the deciding node only through the database lookup of a
  South Node TIE; where the two databases agree on the TIE, or for any other TIE, the
  request filter of one side is the transmit filter of the other.
\<close>

lemma is_flood_allowed_same_db:
  "find_tie n1 (tieid h) = find_tie n2 (tieid h) \<Longrightarrow>
   is_flood_allowed n1 h d t f l tof = is_flood_allowed n2 h d t f l tof"
  by (simp add: is_flood_allowed_def tie_originator_level_def)

lemma is_flood_allowed_not_south_node:
  "direction (tieid h) \<noteq> DIR_SOUTH \<or> tietype (tieid h) \<noteq> NodeTIEType \<Longrightarrow>
   is_flood_allowed n1 h d t f l tof = is_flood_allowed n2 h d t f l tof"
  by (auto simp: is_flood_allowed_def)

lemma scope_symmetry_when_databases_agree:
  assumes nbA: "neighbor iA = Some a_sees_b" and nbB: "neighbor iB = Some b_sees_a"
    and "nb_system_id a_sees_b = system_id nB" and "nb_level a_sees_b = level_value nB"
    and "nb_system_id b_sees_a = system_id nA" and "nb_level b_sees_a = level_value nA"
    and "level_value nA \<noteq> None" and "level_value nB \<noteq> None"
    and db: "find_tie nA (tieid t) = find_tie nB (tieid t)
             \<or> direction (tieid t) \<noteq> DIR_SOUTH \<or> tietype (tieid t) \<noteq> NodeTIEType"
  shows "(case is_flood_filtered nA iA t of Inl e \<Rightarrow> Inl e | Inr (filtered, r) \<Rightarrow> Inr (\<not> filtered, r))
         = is_request_allowed_simple nB iB t (top_of_fabric nB)"
proof -
  obtain la lb where l: "level_value nA = Some la" "level_value nB = Some lb"
    using assms by auto
  have eq: "\<And>d tn f lv tof. is_flood_allowed nA t d tn f lv tof = is_flood_allowed nB t d tn f lv tof"
    using db is_flood_allowed_same_db is_flood_allowed_not_south_node by blast
  consider "la < lb" | "la > lb" | "la = lb" by linarith
  then show ?thesis
  proof cases
    case 1
    then show ?thesis using assms l eq
      by (simp add: is_flood_filtered_def is_request_allowed_simple_def neighbor_direction_def
          flood_allowed_from_nbr_to_node_def nb_top_of_fabric_def top_of_fabric_def
          split: sum.splits prod.splits)
  next
    case 2
    then show ?thesis using assms l eq
      by (simp add: is_flood_filtered_def is_request_allowed_simple_def neighbor_direction_def
          flood_allowed_from_nbr_to_node_def nb_top_of_fabric_def top_of_fabric_def
          split: sum.splits prod.splits)
  next
    case 3
    then show ?thesis using assms l eq
      by (simp add: is_flood_filtered_def is_request_allowed_simple_def neighbor_direction_def
          flood_allowed_from_nbr_to_node_def nb_top_of_fabric_def top_of_fabric_def
          split: sum.splits prod.splits)
  qed
qed

text \<open>
  C5. Node 1 (level 1) holds its own South Node TIE; node 2 (a leaf, level 0) is its
  southern neighbor and does not hold that TIE yet. Both see each other's system id and
  level correctly. Node 1 may flood the TIE to node 2 (the transmit filter does not filter
  it), yet node 2 may not request it from node 1: the request filter evaluates the rule
  "originator level is same as from-node" with the originator level looked up in node 2's
  own database, where the TIE is missing.
\<close>

theorem scope_symmetry_fails_on_unknown_node_tie:
  "is_flood_filtered example_node (example_interface THREE_WAY (Some (example_neighbor 2 0)))
       (example_header 3 1000)
     = Inr (False, ''Node S-TIE to S: originator level is same as from-node'')
   \<and> is_request_allowed_simple example_leaf
       (example_interface THREE_WAY (Some (example_neighbor 1 1))) (example_header 3 1000)
       (top_of_fabric example_leaf)
     = Inr (False, ''Node S-TIE to S: originator level is not same as from-node'')"
  by (simp add: is_flood_filtered_def is_request_allowed_simple_def neighbor_direction_def
      flood_allowed_from_nbr_to_node_def is_flood_allowed_def tie_originator_level_def
      find_tie_def example_node_def example_leaf_def example_interface_def example_neighbor_def
      example_header_def example_node_tie_def level_value_def top_of_fabric_def
      nb_top_of_fabric_def top_of_fabric_level_def)

section \<open>Properties of the ZTP offer selection\<close>

text \<open>
  What \<open>better_offer\<close> computes for two candidates: the first offer wins when its level
  is higher or its system id is smaller, whatever the levels; the second test on the
  levels repeats the first one and never fires.
\<close>

lemma better_offer_candidates:
  assumes "\<not> removed a" "\<not> removed b" "\<not> offer_not_a_ztp_offer a" "\<not> offer_not_a_ztp_offer b"
    and "three_way_only \<longrightarrow> offer_state a = THREE_WAY \<and> offer_state b = THREE_WAY"
    and "offer_level a = Some la" "offer_level b = Some lb"
  shows "better_offer (Some a) (Some b) three_way_only =
           Inr (Some (if la > lb \<or> offer_system_id a < offer_system_id b then a else b))"
  using assms by (cases three_way_only) (auto simp: better_offer_def Let_def)

text \<open>
  C3. Two candidate offers, both in three-way state: node 1 at level 1 and node 2 at
  level 2. The claim picks the offer of node 2, which has the higher level; the code
  returns the offer of node 1, both overall and among the three-way offers, because after
  \<^verbatim>\<open>offer1.level > offer2.level\<close> failed it tests \<^verbatim>\<open>offer2.level < offer1.level\<close>, the same
  condition, and falls through to the system-id tie breaker.
\<close>

theorem better_offer_lower_level_wins:
  "better_offer (Some (example_offer ''if1'' 1 1 THREE_WAY))
                (Some (example_offer ''if2'' 2 2 THREE_WAY)) False
     = Inr (Some (example_offer ''if1'' 1 1 THREE_WAY))
   \<and> better_offer (Some (example_offer ''if1'' 1 1 THREE_WAY))
                (Some (example_offer ''if2'' 2 2 THREE_WAY)) True
     = Inr (Some (example_offer ''if1'' 1 1 THREE_WAY))"
  by (simp add: better_offer_def example_offer_def)

text \<open>
  The same two offers in the offer table of a node: \<^verbatim>\<open>compare_offers\<close> flags the level-1
  offer as best and as best three-way.
\<close>

lemma compare_offers_flags_lower_level:
  "compare_offers example_ztp_node
   = Inr (example_ztp_node\<lparr>
       rx_offers := [(''if1'', (example_offer ''if1'' 1 1 THREE_WAY)\<lparr>best := True, best_three_way := True\<rparr>),
                     (''if2'', example_offer ''if2'' 2 2 THREE_WAY)],
       node_events := [BETTER_HAL, BETTER_HAT]\<rparr>)"
  by (simp add: compare_offers_def better_offer_def example_offer_def example_ztp_node_def)

section \<open>Properties of the LIE acceptance\<close>

text \<open>
  C2 (as stated). A leaf without leaf-to-leaf enabled, whose HAT is 1, receives a LIE
  from another leaf (level 0) that advertises the leaf-to-leaf capability and passes the
  earlier checks. Both nodes are leaf and both advertise the capability, this node in
  every LIE it sends, so condition (3) of the claim holds; the code rejects the LIE with
  "Level mismatch", because its own leaf-to-leaf setting is off.
\<close>

theorem lie_rejected_though_both_advertise:
  "is_received_lie_acceptable 1 example_leaf_three_way (example_interface ONE_WAY None)
       (example_lie 4 (Some 0))
     = Inr (False, ''Level mismatch'', True, True)
   \<and> advertises_leaf_2_leaf
       (lie_packet_to_send example_leaf_three_way (example_interface ONE_WAY None) 777)
   \<and> advertises_leaf_2_leaf (lie (example_lie 4 (Some 0)))
   \<and> claimed_lie_acceptance example_leaf_three_way
       (lie_packet_to_send example_leaf_three_way (example_interface ONE_WAY None) 777)
       0 (lie (example_lie 4 (Some 0)))"
proof (intro conjI)
  show "is_received_lie_acceptable 1 example_leaf_three_way (example_interface ONE_WAY None)
       (example_lie 4 (Some 0))
     = Inr (False, ''Level mismatch'', True, True)"
    by (simp add: is_received_lie_acceptable_def example_leaf_three_way_def example_leaf_def
        example_interface_def example_lie_def is_valid_received_system_id_def level_value_def
        this_node_is_leaf_def hat_not_greater_remote_level_def leaf_level_def
        both_nodes_support_leaf_2_leaf_def neither_leaf_and_ldiff_one_def
        UNDEFINED_OR_ANY_POD_def)
  show own: "advertises_leaf_2_leaf
       (lie_packet_to_send example_leaf_three_way (example_interface ONE_WAY None) 777)"
    by (simp add: advertises_leaf_2_leaf_def lie_packet_to_send_def)
  show snd: "advertises_leaf_2_leaf (lie (example_lie 4 (Some 0)))"
    by (simp add: advertises_leaf_2_leaf_def example_lie_def)
  have leaf: "this_node_is_leaf example_leaf_three_way"
    by (simp add: this_node_is_leaf_def level_value_def leaf_level_def
        example_leaf_three_way_def example_leaf_def)
  show "claimed_lie_acceptance example_leaf_three_way
       (lie_packet_to_send example_leaf_three_way (example_interface ONE_WAY None) 777)
       0 (lie (example_lie 4 (Some 0)))"
    using own snd leaf by (simp add: claimed_lie_acceptance_def)
qed

text \<open>
  C2 (amended). A received LIE that passed the header, system-id, loopback, MTU,
  level-defined and PoD checks is accepted if and only if (1) this node is a leaf and
  HAT is at most the sender's level, which it is while HAT is undefined, or (2) this
  node is not a leaf and the sender's level is 0, or (3) both nodes are leaf, this node
  has leaf-to-leaf enabled (its \<open>leaf_2_leaf\<close> setting) and the sender advertises the
  leaf-to-leaf capability, or (4) neither node is leaf and the levels differ by at
  most 1. Otherwise it is rejected with the rule "Level mismatch".
\<close>

theorem lie_acceptance_rules:
  assumes "pkt_header p = Some h"
    and "major_version h = v"
    and "sender h \<noteq> 0"
    and "sender h \<noteq> system_id n"
    and "mtu intf = link_mtu_size (lie p)"
    and "hdr_level h = Some sender_level"
    and "level_value n = Some my_level"
    and "pod intf = 0 \<or> lie_pod (lie p) = 0 \<or> pod intf = lie_pod (lie p)"
  shows "\<exists>accept rule.
           is_received_lie_acceptable v n intf p = Inr (accept, rule, True, \<not> accept)
         \<and> (accept \<longleftrightarrow>
              (my_level = 0 \<and>
                 (highest_adjacency_three_way n = None \<or>
                  (\<exists>hat. highest_adjacency_three_way n = Some hat \<and> hat \<le> sender_level)))
              \<or> (my_level \<noteq> 0 \<and> sender_level = 0)
              \<or> (my_level = 0 \<and> sender_level = 0 \<and> leaf_2_leaf n \<and>
                  (\<exists>caps. capabilities (lie p) = Some caps \<and>
                     hierarchy_indications caps = Some leaf_only_and_leaf_2_leaf_procedures))
              \<or> (my_level \<noteq> 0 \<and> sender_level \<noteq> 0 \<and> \<bar>sender_level - my_level\<bar> \<le> 1))
         \<and> (\<not> accept \<longrightarrow> rule = ''Level mismatch'')"
  using assms
  by (auto simp: is_received_lie_acceptable_def is_valid_received_system_id_def
      this_node_is_leaf_def hat_not_greater_remote_level_def leaf_level_def
      UNDEFINED_OR_ANY_POD_def both_nodes_support_leaf_2_leaf_def
      neither_leaf_and_ldiff_one_def Let_def
      split: option.splits)

theorem lie_acceptance_rules_witness:
  "(\<exists>rule. is_received_lie_acceptable 1 example_node (example_interface ONE_WAY None)
              (example_lie 2 (Some 2)) = Inr (True, rule, True, False))
   \<and> is_received_lie_acceptable 1 example_node (example_interface ONE_WAY None)
              (example_lie 2 (Some 3)) = Inr (False, ''Level mismatch'', True, True)"
proof -
  let ?i = "example_interface ONE_WAY None"
  have lv: "level_value example_node = Some 1"
    by (simp add: level_value_def example_node_def)
  have hat: "highest_adjacency_three_way example_node = None"
    by (simp add: example_node_def)
  have inst: "\<exists>accept rule.
           is_received_lie_acceptable 1 example_node ?i (example_lie 2 (Some l))
             = Inr (accept, rule, True, \<not> accept)
         \<and> (accept \<longleftrightarrow> l = 0 \<or> (l \<noteq> 0 \<and> \<bar>l - 1\<bar> \<le> 1))
         \<and> (\<not> accept \<longrightarrow> rule = ''Level mismatch'')" for l
    using lie_acceptance_rules [of "example_lie 2 (Some l)"
            "\<lparr>major_version = 1, sender = 2, hdr_level = Some l\<rparr>" 1 example_node ?i l 1]
          lv hat
    by (simp add: example_lie_def example_node_def example_interface_def)
  from inst [of 2] have a: "\<exists>rule. is_received_lie_acceptable 1 example_node ?i
      (example_lie 2 (Some 2)) = Inr (True, rule, True, False)"
    by auto
  from inst [of 3] have b: "is_received_lie_acceptable 1 example_node ?i
      (example_lie 2 (Some 3)) = Inr (False, ''Level mismatch'', True, True)"
    by auto
  from a b show ?thesis by blast
qed

section \<open>Properties of LIE processing and the hold timer\<close>

lemma neither_leaf_and_ldiff_one_no_error:
  "level_value n = Some a \<Longrightarrow> hdr_level h = Some b \<Longrightarrow> neither_leaf_and_ldiff_one n h \<noteq> Inl e"
  by (simp add: neither_leaf_and_ldiff_one_def)

lemma is_received_lie_acceptable_no_error:
  "is_received_lie_acceptable v n intf p \<noteq> Inl e"
proof (cases "pkt_header p")
  case None
  then show ?thesis by (simp add: is_received_lie_acceptable_def)
next
  case (Some h)
  show ?thesis
  proof (cases "hdr_level h")
    case None
    with Some show ?thesis by (simp add: is_received_lie_acceptable_def Let_def)
  next
    case rl: (Some remote_level)
    show ?thesis
    proof (cases "level_value n")
      case None
      with Some rl show ?thesis by (simp add: is_received_lie_acceptable_def Let_def)
    next
      case ml: (Some my_level)
      from neither_leaf_and_ldiff_one_no_error [OF ml rl]
      obtain r where r: "neither_leaf_and_ldiff_one n h = Inr r"
        by (cases "neither_leaf_and_ldiff_one n h") auto
      show ?thesis using Some rl ml r
        by (cases r) (simp_all add: is_received_lie_acceptable_def Let_def)
    qed
  qed
qed

lemma is_received_lie_acceptable_total:
  "\<exists>r. is_received_lie_acceptable v n intf p = Inr r"
  using is_received_lie_acceptable_no_error [of v n intf p]
  by (cases "is_received_lie_acceptable v n intf p") auto

lemma check_three_way_ticks:
  "check_three_way n intf = Inr intf' \<Longrightarrow>
   time_ticks_since_lie_received intf' = time_ticks_since_lie_received intf"
  by (auto simp: check_three_way_def split: if_splits option.splits sum.splits bool.splits)

lemma check_three_way_total:
  "neighbor intf \<noteq> None \<Longrightarrow> \<exists>intf'. check_three_way n intf = Inr intf'"
  by (auto simp: check_three_way_def check_reflection_def split: option.splits bool.splits)

lemma check_minor_change_total:
  "neighbor intf \<noteq> None \<Longrightarrow> \<exists>b. check_minor_change intf nb = Inr b"
  by (auto simp: check_minor_change_def)

lemma process_timer_tick_running:
  assumes "state intf = TWO_WAY \<or> state intf = THREE_WAY"
    and "time_ticks_since_lie_received intf = Some k"
  shows "time_ticks_since_lie_received (process_timer_tick intf) = Some (k + 1)
       \<and> events (process_timer_tick intf) =
           events intf @ (if k + 1 \<ge> holdtime_in_force intf then [HOLD_TIME_EXPIRED] else [])
             @ [SEND_LIE]"
  using assms
  by (auto simp: process_timer_tick_def action_check_hold_time_expired_def holdtime_in_force_def
      default_lie_holdtime_def Let_def split: option.splits)

lemma process_timer_tick_stopped:
  assumes "time_ticks_since_lie_received intf = None"
  shows "time_ticks_since_lie_received (process_timer_tick intf) = None
       \<and> events (process_timer_tick intf) = events intf @ [SEND_LIE]"
  using assms
  by (cases "state intf")
     (auto simp: process_timer_tick_def action_check_hold_time_expired_def)

lemma action_process_lie_resets_ticks:
  assumes "pkt_header p \<noteq> None"
  shows "case action_process_lie v n intf (p, from_address, from_port) of
           Inl e \<Rightarrow> False
         | Inr (n', intf') \<Rightarrow> time_ticks_since_lie_received intf' = Some 0"
proof -
  let ?i0 = "intf\<lparr>time_ticks_since_lie_received := Some 0\<rparr>"
  from assms obtain nb where nb: "new_Neighbor p from_address from_port = Inr nb"
    by (auto simp: new_Neighbor_def Let_def)
  obtain accept rule otz warning where
    acc: "is_received_lie_acceptable v n ?i0 p = Inr (accept, rule, otz, warning)"
    using is_received_lie_acceptable_total [of v n ?i0 p] by (metis prod_cases4)
  show ?thesis
  proof (cases accept)
    case False
    then show ?thesis using nb acc
      by (simp add: action_process_lie_def Let_def action_cleanup_def)
  next
    case True
    let ?i1 = "?i0\<lparr>lie_accept_or_reject := ''Accepted'', lie_accept_or_reject_rule := rule\<rparr>"
    let ?n1 = "send_offer_to_ztp_fsm n ?i1 nb"
    show ?thesis
    proof (cases "neighbor intf")
      case None
      let ?i2 = "?i1\<lparr>neighbor := Some nb, events := events ?i1 @ [NEW_NEIGHBOR]\<rparr>"
      obtain i3 where i3: "check_three_way ?n1 ?i2 = Inr i3"
        using check_three_way_total [of ?i2 ?n1] by auto
      from check_three_way_ticks [OF i3]
      have "time_ticks_since_lie_received i3 = Some 0" by simp
      then show ?thesis using nb acc True None i3
        by (simp add: action_process_lie_def Let_def)
    next
      case (Some old)
      obtain minor where minor: "check_minor_change ?i1 nb = Inr minor"
        using check_minor_change_total [of ?i1 nb] Some by auto
      let ?i2 = "(if minor then ?i1\<lparr>events := events ?i1 @ [NEIGHBOR_CHANGED_MINOR_FIELDS]\<rparr>
                  else ?i1)\<lparr>neighbor := Some nb\<rparr>"
      obtain i3 where i3: "check_three_way ?n1 ?i2 = Inr i3"
        using check_three_way_total [of ?i2 ?n1] by auto
      from check_three_way_ticks [OF i3]
      have "time_ticks_since_lie_received i3 = Some 0" by (simp split: if_splits)
      then show ?thesis using nb acc True Some minor i3
        by (simp add: action_process_lie_def Let_def)
    qed
  qed
qed

lemma accepted_lie_has_header:
  "is_received_lie_acceptable v n intf p = Inr (True, rule, otz, w) \<Longrightarrow> pkt_header p \<noteq> None"
  by (cases "pkt_header p") (simp_all add: is_received_lie_acceptable_def)

lemma process_timer_tick_one_way:
  "state intf = ONE_WAY \<Longrightarrow>
   process_timer_tick intf = intf\<lparr>events := events intf @ [SEND_LIE]\<rparr>"
  by (simp add: process_timer_tick_def)

text \<open>
  C7 (as stated: every TIMER_TICK while the counter is running increments it). In state
  ONE_WAY the transition of TIMER_TICK names no action: a running counter (here 0) stays
  where it is and no HOLD_TIME_EXPIRED is pushed.
\<close>

theorem hold_timer_not_ticking_in_one_way:
  "time_ticks_since_lie_received
     ((example_interface ONE_WAY None)\<lparr>time_ticks_since_lie_received := Some 0\<rparr>) = Some 0
   \<and> time_ticks_since_lie_received
       (process_timer_tick
          ((example_interface ONE_WAY None)\<lparr>time_ticks_since_lie_received := Some 0\<rparr>)) = Some 0
   \<and> events
       (process_timer_tick
          ((example_interface ONE_WAY None)\<lparr>time_ticks_since_lie_received := Some 0\<rparr>)) = [SEND_LIE]"
  by (simp add: process_timer_tick_def example_interface_def)

text \<open>
  C7 (amended). Processing a received LIE that is accepted resets the tick counter of
  the interface to 0. A TIMER_TICK in state TWO_WAY or THREE_WAY while the counter is
  running increments it by one, and pushes HOLD_TIME_EXPIRED (before SEND_LIE) exactly
  when the new count has reached the hold time in force: the one the neighbor advertised,
  3 seconds by default. A TIMER_TICK in state ONE_WAY leaves the counter, running or not,
  as it is and pushes SEND_LIE only.
\<close>

theorem hold_timer:
  "(is_received_lie_acceptable v n intf p = Inr (True, rule, offer_to_ztp, warning) \<longrightarrow>
      (\<exists>n' intf'. action_process_lie v n intf (p, from_address, from_port) = Inr (n', intf')
         \<and> time_ticks_since_lie_received intf' = Some 0))
   \<and> ((state intf = TWO_WAY \<or> state intf = THREE_WAY) \<and>
        time_ticks_since_lie_received intf = Some k \<longrightarrow>
        time_ticks_since_lie_received (process_timer_tick intf) = Some (k + 1)
        \<and> events (process_timer_tick intf) =
            events intf @ (if k + 1 \<ge> holdtime_in_force intf then [HOLD_TIME_EXPIRED] else [])
              @ [SEND_LIE])
   \<and> (state intf = ONE_WAY \<longrightarrow>
        time_ticks_since_lie_received (process_timer_tick intf)
          = time_ticks_since_lie_received intf
        \<and> events (process_timer_tick intf) = events intf @ [SEND_LIE])"
proof (intro conjI impI)
  assume "is_received_lie_acceptable v n intf p = Inr (True, rule, offer_to_ztp, warning)"
  from accepted_lie_has_header [OF this]
  have "pkt_header p \<noteq> None" .
  from action_process_lie_resets_ticks [OF this, of v n intf from_address from_port]
  show "\<exists>n' intf'. action_process_lie v n intf (p, from_address, from_port) = Inr (n', intf')
         \<and> time_ticks_since_lie_received intf' = Some 0"
    by (cases "action_process_lie v n intf (p, from_address, from_port)") auto
next
  assume a: "(state intf = TWO_WAY \<or> state intf = THREE_WAY) \<and>
        time_ticks_since_lie_received intf = Some k"
  with process_timer_tick_running [of intf k]
  show "time_ticks_since_lie_received (process_timer_tick intf) = Some (k + 1)" by blast
  from a process_timer_tick_running [of intf k]
  show "events (process_timer_tick intf) =
            events intf @ (if k + 1 \<ge> holdtime_in_force intf then [HOLD_TIME_EXPIRED] else [])
              @ [SEND_LIE]" by blast
next
  assume a: "state intf = ONE_WAY"
  from process_timer_tick_one_way [OF a]
  show "time_ticks_since_lie_received (process_timer_tick intf)
          = time_ticks_since_lie_received intf" by simp
  from process_timer_tick_one_way [OF a]
  show "events (process_timer_tick intf) = events intf @ [SEND_LIE]" by simp
qed

theorem hold_timer_witness:
  "(\<exists>n' intf'. action_process_lie 1 example_node
        ((example_interface TWO_WAY (Some (example_neighbor 2 2)))
           \<lparr>time_ticks_since_lie_received := Some 2\<rparr>)
        (example_lie 2 (Some 2), ''10.0.0.1'', 10000) = Inr (n', intf')
      \<and> time_ticks_since_lie_received intf' = Some 0)
   \<and> time_ticks_since_lie_received
       (process_timer_tick ((example_interface TWO_WAY (Some (example_neighbor 2 2)))
           \<lparr>time_ticks_since_lie_received := Some 2\<rparr>)) = Some 3
   \<and> events
       (process_timer_tick ((example_interface TWO_WAY (Some (example_neighbor 2 2)))
           \<lparr>time_ticks_since_lie_received := Some 2\<rparr>)) = [HOLD_TIME_EXPIRED, SEND_LIE]
   \<and> time_ticks_since_lie_received
       (process_timer_tick ((example_interface ONE_WAY None)
           \<lparr>time_ticks_since_lie_received := Some 1\<rparr>)) = Some 1
   \<and> events
       (process_timer_tick ((example_interface ONE_WAY None)
           \<lparr>time_ticks_since_lie_received := Some 1\<rparr>)) = [SEND_LIE]"
proof -
  let ?I = "(example_interface TWO_WAY (Some (example_neighbor 2 2)))
              \<lparr>time_ticks_since_lie_received := Some 2\<rparr>"
  let ?J = "(example_interface ONE_WAY None)\<lparr>time_ticks_since_lie_received := Some 1\<rparr>"
  have acc: "is_received_lie_acceptable 1 example_node ?I (example_lie 2 (Some 2))
               = Inr (True, ''Neither node is leaf and level difference is at most one'',
                      True, False)"
    by (simp add: is_received_lie_acceptable_def example_node_def
        example_interface_def example_lie_def is_valid_received_system_id_def level_value_def
        this_node_is_leaf_def hat_not_greater_remote_level_def leaf_level_def
        both_nodes_support_leaf_2_leaf_def neither_leaf_and_ldiff_one_def
        UNDEFINED_OR_ANY_POD_def)
  have st: "state ?I = TWO_WAY" "time_ticks_since_lie_received ?I = Some 2"
    by (simp_all add: example_interface_def)
  have ht: "holdtime_in_force ?I = 3"
    by (simp add: holdtime_in_force_def example_interface_def example_neighbor_def)
  have ev: "events ?I = []" "events ?J = []" by (simp_all add: example_interface_def)
  have one: "state ?J = ONE_WAY" "time_ticks_since_lie_received ?J = Some 1"
    by (simp_all add: example_interface_def)
  from hold_timer [of 1 example_node ?I "example_lie 2 (Some 2)"
         "''Neither node is leaf and level difference is at most one''" True False
         "''10.0.0.1''" 10000 2] acc st ht ev
  have a: "(\<exists>n' intf'. action_process_lie 1 example_node ?I
                (example_lie 2 (Some 2), ''10.0.0.1'', 10000) = Inr (n', intf')
              \<and> time_ticks_since_lie_received intf' = Some 0)
           \<and> time_ticks_since_lie_received (process_timer_tick ?I) = Some 3
           \<and> events (process_timer_tick ?I) = [HOLD_TIME_EXPIRED, SEND_LIE]"
    by simp
  from hold_timer [of 1 example_node ?J "example_lie 2 (Some 2)"
         "''x''" True False "''10.0.0.1''" 10000 0] one ev
  have b: "time_ticks_since_lie_received (process_timer_tick ?J) = Some 1
           \<and> events (process_timer_tick ?J) = [SEND_LIE]"
    by simp
  from a b show ?thesis by blast
qed

end
